theory Spec2Isabelle
  imports Main "HOL-Library.Word"
begin

unbundle bit_operations_syntax

section \<open>Strings as the C code compares them\<close>

text \<open>
  A C string pointer is a \<open>string option\<close>: \<open>None\<close> is the null pointer. The
  sources compare strings with \<open>strcmp\<close>, \<open>strcasecmp\<close> and the macro
  \<open>safe_str_eq(a, b)\<close>, which util.h defines as \<open>crm_str_eq(a, b, FALSE)\<close>.
\<close>

definition tolower_c :: "char \<Rightarrow> char" where
  \<comment> \<open>\<open>tolower\<close> in the C locale: the letters A to Z (65 to 90) get bit 5 set, that is 32 added\<close>
  "tolower_c c =
     (if 65 \<le> (of_char c :: nat) \<and> (of_char c :: nat) \<le> 90
      then (case c of Char b0 b1 b2 b3 b4 b5 b6 b7 \<Rightarrow> Char b0 b1 b2 b3 b4 True b6 b7)
      else c)"

definition strcasecmp_eq :: "string \<Rightarrow> string \<Rightarrow> bool" where
  \<comment> \<open>\<open>strcasecmp(a, b) == 0\<close>\<close>
  "strcasecmp_eq a b = (map tolower_c a = map tolower_c b)"

text \<open>
  Modelled from the spec: \<open>crm_str_eq\<close> is declared in util.h and defined outside these
  sources. util.h uses \<open>crm_str_eq(a, b, FALSE)\<close> for tables "where case does not
  matter", so without \<open>use_case\<close> the comparison ignores case; two null pointers are
  equal and a null pointer differs from every string.
\<close>

definition crm_str_eq :: "string option \<Rightarrow> string option \<Rightarrow> bool \<Rightarrow> bool" where
  "crm_str_eq a b use_case =
     (case (a, b) of
        (None, None) \<Rightarrow> True
      | (Some x, Some y) \<Rightarrow> (if use_case then x = y else strcasecmp_eq x y)
      | _ \<Rightarrow> False)"

definition safe_str_eq :: "string option \<Rightarrow> string option \<Rightarrow> bool" where
  "safe_str_eq a b = crm_str_eq a b False"

text \<open>
  \<open>safe_str_neq\<close> is declared in util.h and defined outside these sources; it is taken
  to be the negation of \<open>safe_str_eq\<close>.
\<close>

definition safe_str_neq :: "string option \<Rightarrow> string option \<Rightarrow> bool" where
  "safe_str_neq a b = (\<not> safe_str_eq a b)"

definition crm_strlen_zero :: "string option \<Rightarrow> bool" where
  \<comment> \<open>a null pointer or a string of length zero\<close>
  "crm_strlen_zero s = (case s of None \<Rightarrow> True | Some x \<Rightarrow> x = [])"

text \<open>\<open>crm_itoa\<close> prints an \<open>int\<close> in decimal.\<close>

definition digit_char :: "nat \<Rightarrow> char" where
  \<comment> \<open>the decimal digit for a number below ten\<close>
  "digit_char n = ''0123456789'' ! n"

fun nat_digits :: "nat \<Rightarrow> string" where
  "nat_digits n =
     (if n < 10 then [digit_char n] else nat_digits (n div 10) @ [digit_char (n mod 10)])"

declare nat_digits.simps [simp del]

definition crm_itoa :: "int \<Rightarrow> string" where
  "crm_itoa i = (if i < 0 then CHR ''-'' # nat_digits (nat (- i)) else nat_digits (nat i))"

section \<open>The attribute daemon\<close>

subsection \<open>Data\<close>

text \<open>
  \<open>attr_hash_entry_t\<close>. The fields \<open>id\<close>, \<open>set\<close>, \<open>section\<close>, \<open>value\<close> and \<open>timeout\<close> carry the
  suffix \<open>_attr\<close>. \<open>timer_id\<close> is the glib source id of the dampening timer, zero when
  no timer is armed.
\<close>

record attr_hash_entry =
  uuid :: "string option"
  id_attr :: string
  set_attr :: "string option"
  section_attr :: "string option"
  value_attr :: "string option"
  stored_value :: "string option"
  timeout_attr :: int
  dampen :: "string option"
  timer_id :: nat
  user :: "string option"

text \<open>
  An XML message, as far as the daemon reads it: its attributes by name.
  \<open>crm_element_value\<close> and \<open>crm_xml_add\<close> are defined outside these sources (xml.c);
  \<open>crm_xml_add(node, name, value)\<close> returns without adding anything when \<open>value\<close> is a
  null pointer.
\<close>

type_synonym xmlNode = "string \<rightharpoonup> string"

definition crm_element_value :: "xmlNode \<Rightarrow> string \<Rightarrow> string option" where
  "crm_element_value msg name = msg name"

definition crm_xml_add :: "xmlNode \<Rightarrow> string \<Rightarrow> string option \<Rightarrow> xmlNode" where
  "crm_xml_add node name v = (case v of None \<Rightarrow> node | Some x \<Rightarrow> node(name \<mapsto> x))"

text \<open>
  The names of the message fields and of the tasks, from crm_internal.h, crm/crm.h,
  crm/msg_xml.h and crm/attrd.h (not among the sources).
\<close>

definition F_TYPE :: string where "F_TYPE = ''t''"
definition F_ORIG :: string where "F_ORIG = ''src''"
definition T_ATTRD :: string where "T_ATTRD = ''attrd''"
definition F_ATTRD_KEY :: string where "F_ATTRD_KEY = ''attr_key''"
definition F_ATTRD_ATTRIBUTE :: string where "F_ATTRD_ATTRIBUTE = ''attr_name''"
definition F_ATTRD_REGEX :: string where "F_ATTRD_REGEX = ''attr_regex''"
definition F_ATTRD_TASK :: string where "F_ATTRD_TASK = ''task''"
definition F_ATTRD_VALUE :: string where "F_ATTRD_VALUE = ''attr_value''"
definition F_ATTRD_SET :: string where "F_ATTRD_SET = ''attr_set''"
definition F_ATTRD_IS_REMOTE :: string where "F_ATTRD_IS_REMOTE = ''attr_is_remote''"
definition F_ATTRD_SECTION :: string where "F_ATTRD_SECTION = ''attr_section''"
definition F_ATTRD_DAMPEN :: string where "F_ATTRD_DAMPEN = ''attr_dampening''"
definition F_ATTRD_IGNORE_LOCALLY :: string where
  "F_ATTRD_IGNORE_LOCALLY = ''attr_ignore_locally''"
definition F_ATTRD_HOST :: string where "F_ATTRD_HOST = ''attr_host''"
definition F_ATTRD_USER :: string where "F_ATTRD_USER = ''attr_user''"
definition XML_CIB_TAG_STATUS :: string where "XML_CIB_TAG_STATUS = ''status''"
definition ATTRD_OP_PEER_REMOVE :: string where "ATTRD_OP_PEER_REMOVE = ''peer-remove''"
definition ATTRD_OP_UPDATE :: string where "ATTRD_OP_UPDATE = ''update''"
definition ATTRD_OP_REFRESH :: string where "ATTRD_OP_REFRESH = ''refresh''"
definition ATTRD_OP_CLEAR_FAILURE :: string where "ATTRD_OP_CLEAR_FAILURE = ''clear-failure''"

text \<open>
  What the daemon takes from its build and from functions defined outside these
  sources: whether it is built with \<open>ENABLE_ACL\<close>, the name of the local node
  (\<open>attrd_uname\<close>), \<open>attrd_value_needs_expansion\<close> and \<open>attrd_expand_value\<close>, the
  \<open>int\<close> that \<open>crm_get_msec\<close> yields for a dampening text and that
  \<open>crm_element_value_int\<close> parses from an attribute, and the source id that
  \<open>g_timeout_add\<close> returns for the timer of an entry.
\<close>

record attrd_env =
  ENABLE_ACL :: bool
  attrd_uname :: "string option"
  attrd_value_needs_expansion :: "string \<Rightarrow> bool"
  attrd_expand_value :: "string \<Rightarrow> string option \<Rightarrow> int"
  crm_get_msec :: "string \<Rightarrow> int"
  crm_int_helper :: "string \<Rightarrow> int"
  g_timeout_add :: "int \<Rightarrow> string \<Rightarrow> nat"

text \<open>
  What the daemon does to the outside world, in order: glib timers, the flush message
  broadcast to the peers, the call of \<open>attrd_perform_update\<close> for an entry (its id and
  value), and log lines by level.
\<close>

datatype attrd_effect =
    Timer_removed nat
  | Timer_added nat int string
  | Flush_sent xmlNode
  | Perform_update string "string option"
  | Log_trace
  | Log_debug
  | Log_warn
  | Log_err

subsection \<open>Updating a local attribute\<close>

definition stop_attrd_timer :: "attr_hash_entry \<Rightarrow> attr_hash_entry \<times> attrd_effect list" where
  "stop_attrd_timer hash_entry =
     (if timer_id hash_entry \<noteq> 0
      then (hash_entry\<lparr>timer_id := 0\<rparr>, [Timer_removed (timer_id hash_entry)])
      else (hash_entry, []))"

text \<open>
  \<open>attrd_trigger_update\<close> builds the flush message and sends it to every peer; without
  dampening (\<open>timeout <= 0\<close>) the message gets the ignore-locally mark, which carries
  the value and so is missing when the value is a null pointer, and the update goes to
  the CIB at once through \<open>attrd_perform_update\<close>, before the broadcast.
\<close>

definition flush_message :: "attrd_env \<Rightarrow> attr_hash_entry \<Rightarrow> xmlNode" where
  "flush_message env hash_entry =
     (let m1 = crm_xml_add Map.empty F_TYPE (Some T_ATTRD);
          m2 = crm_xml_add m1 F_ORIG (attrd_uname env);
          m3 = crm_xml_add m2 F_ATTRD_TASK (Some ''flush'');
          m4 = crm_xml_add m3 F_ATTRD_ATTRIBUTE (Some (id_attr hash_entry));
          m5 = crm_xml_add m4 F_ATTRD_SET (set_attr hash_entry);
          m6 = crm_xml_add m5 F_ATTRD_SECTION (section_attr hash_entry);
          m7 = crm_xml_add m6 F_ATTRD_DAMPEN (dampen hash_entry);
          m8 = crm_xml_add m7 F_ATTRD_VALUE (value_attr hash_entry)
      in if ENABLE_ACL env \<and> user hash_entry \<noteq> None
         then crm_xml_add m8 F_ATTRD_USER (user hash_entry)
         else m8)"

definition attrd_trigger_update :: "attrd_env \<Rightarrow> attr_hash_entry \<Rightarrow> attrd_effect list" where
  "attrd_trigger_update env hash_entry =
     (let msg = flush_message env hash_entry
      in if timeout_attr hash_entry \<le> 0
         then [Perform_update (id_attr hash_entry) (value_attr hash_entry),
               Flush_sent (crm_xml_add msg F_ATTRD_IGNORE_LOCALLY (value_attr hash_entry))]
         else [Flush_sent msg])"

definition expand_attr_value :: "attrd_env \<Rightarrow> string \<Rightarrow> string option \<Rightarrow> string option" where
  "expand_attr_value env v old_value =
     (if attrd_value_needs_expansion env v
      then Some (crm_itoa (attrd_expand_value env v old_value))
      else None)"

text \<open>
  \<open>update_local_attr(msg, hash_entry)\<close>. The result is the entry after the call and the
  effects of the call.
\<close>

definition update_local_attr ::
  "attrd_env \<Rightarrow> xmlNode \<Rightarrow> attr_hash_entry \<Rightarrow> attr_hash_entry \<times> attrd_effect list" where
  "update_local_attr env msg hash_entry0 =
     (let v = crm_element_value msg F_ATTRD_VALUE;
          hash_entry =
            (if uuid hash_entry0 = None
             then (case crm_element_value msg F_ATTRD_KEY of
                     Some key \<Rightarrow> hash_entry0\<lparr>uuid := Some key\<rparr>
                   | None \<Rightarrow> hash_entry0)
             else hash_entry0)
      in if safe_str_eq v (value_attr hash_entry) \<and> safe_str_eq v (stored_value hash_entry)
         then (hash_entry, [])
         else
           let expanded =
                 (case v of
                    Some x \<Rightarrow> expand_attr_value env x (value_attr hash_entry)
                  | None \<Rightarrow> None);
               v' = (case expanded of Some x \<Rightarrow> Some x | None \<Rightarrow> v)
           in if safe_str_eq v' (value_attr hash_entry) \<and> timer_id hash_entry \<noteq> 0
              then (hash_entry, [])
              else
                let e1 = hash_entry\<lparr>value_attr := v'\<rparr>;
                    (e2, fx) = stop_attrd_timer e1
                in if timeout_attr e2 > 0
                   then (e2\<lparr>timer_id := g_timeout_add env (timeout_attr e2) (id_attr e2)\<rparr>,
                         fx @ [Timer_added (g_timeout_add env (timeout_attr e2) (id_attr e2))
                                 (timeout_attr e2) (id_attr e2)])
                   else (e2, fx @ attrd_trigger_update env e2))"

subsection \<open>A request from a local client\<close>

text \<open>
  \<open>find_hash_entry(msg)\<close> looks the attribute named in the request up in \<open>attr_hash\<close>,
  a table of strings compared with \<open>g_str_equal\<close>, creates the entry when there is
  none, and copies set, section, dampening and user from the request into the entry.
  The result is the table after the call and the key of the entry found, \<open>None\<close> for
  the null pointer.
\<close>

definition find_hash_entry ::
  "attrd_env \<Rightarrow> (string \<rightharpoonup> attr_hash_entry) \<Rightarrow> xmlNode \<Rightarrow>
   (string \<rightharpoonup> attr_hash_entry) \<times> string option" where
  "find_hash_entry env attr_hash msg =
     (case crm_element_value msg F_ATTRD_ATTRIBUTE of
        None \<Rightarrow> (attr_hash, None)
      | Some attr' \<Rightarrow>
          let e0 = (case attr_hash attr' of
                      Some e \<Rightarrow> e
                    | None \<Rightarrow>
                        \<lparr>uuid = None, id_attr = attr', set_attr = None, section_attr = None,
                         value_attr = None, stored_value = None, timeout_attr = 0,
                         dampen = None, timer_id = 0, user = None\<rparr>);
              e1 = (case crm_element_value msg F_ATTRD_SET of
                      Some v \<Rightarrow> e0\<lparr>set_attr := Some v\<rparr>
                    | None \<Rightarrow> e0);
              e2 = e1\<lparr>section_attr :=
                         Some (case crm_element_value msg F_ATTRD_SECTION of
                                 Some v \<Rightarrow> v
                               | None \<Rightarrow> XML_CIB_TAG_STATUS)\<rparr>;
              e3 = (case crm_element_value msg F_ATTRD_DAMPEN of
                      Some v \<Rightarrow> e2\<lparr>dampen := Some v, timeout_attr := crm_get_msec env v\<rparr>
                    | None \<Rightarrow> e2);
              e4 = (if ENABLE_ACL env
                    then e3\<lparr>user := crm_element_value msg F_ATTRD_USER\<rparr>
                    else e3)
          in (attr_hash(attr' \<mapsto> e4), Some attr'))"

text \<open>
  \<open>attrd_local_callback(msg)\<close> handles a request in one of several branches. The
  model follows the branch of an update of one attribute named in the request, which
  runs \<open>find_hash_entry\<close> and then \<open>update_local_attr\<close>; the result is then the table
  after the call and the effects. For a request that takes another branch the model
  only says which one: their bodies are left out.
\<close>

datatype attrd_branch =
    Refresh_all
  | Peer_removal
  | Clear_failure
  | Unsupported_task
  | Remote_node
  | Other_node
  | By_pattern
  | Nothing_named

definition attr_is_remote :: "attrd_env \<Rightarrow> xmlNode \<Rightarrow> int" where
  \<comment> \<open>\<open>is_remote\<close> after \<open>crm_element_value_int(msg, F_ATTRD_IS_REMOTE, &is_remote)\<close>\<close>
  "attr_is_remote env msg =
     (case crm_element_value msg F_ATTRD_IS_REMOTE of
        Some v \<Rightarrow> crm_int_helper env v
      | None \<Rightarrow> 0)"

definition attrd_local_callback ::
  "attrd_env \<Rightarrow> (string \<rightharpoonup> attr_hash_entry) \<Rightarrow> xmlNode \<Rightarrow>
   attrd_branch + (string \<rightharpoonup> attr_hash_entry) \<times> attrd_effect list" where
  "attrd_local_callback env attr_hash msg =
     (let op = crm_element_value msg F_ATTRD_TASK;
          attr' = crm_element_value msg F_ATTRD_ATTRIBUTE;
          pattern = crm_element_value msg F_ATTRD_REGEX;
          host = crm_element_value msg F_ATTRD_HOST;
          is_remote = attr_is_remote env msg
      in if safe_str_eq op (Some ATTRD_OP_REFRESH) then Inl Refresh_all
         else if safe_str_eq op (Some ATTRD_OP_PEER_REMOVE) then Inl Peer_removal
         else if safe_str_eq op (Some ATTRD_OP_CLEAR_FAILURE) then Inl Clear_failure
         else if op \<noteq> None \<and> safe_str_neq op (Some ATTRD_OP_UPDATE) then Inl Unsupported_task
         else if host \<noteq> None \<and> is_remote \<noteq> 0 then Inl Remote_node
         else if host \<noteq> None \<and> safe_str_neq host (attrd_uname env) then Inl Other_node
         else if attr' \<noteq> None
         then
           (case find_hash_entry env attr_hash msg of
              (tbl, None) \<Rightarrow> Inr (tbl, [])
            | (tbl, Some k) \<Rightarrow>
                (case tbl k of
                   None \<Rightarrow> Inr (tbl, [])
                 | Some hash_entry \<Rightarrow>
                     let (e, fx) = update_local_attr env msg hash_entry
                     in Inr (tbl(k \<mapsto> e), fx)))
         else if pattern \<noteq> None then Inl By_pattern
         else Inl Nothing_named)"

subsection \<open>The completion of a commit\<close>

text \<open>
  \<open>struct attrd_callback_s\<close>: the attribute name and the value that was submitted, a
  null value for a delete.
\<close>

record attrd_callback_s =
  attr :: string
  value_cb :: "string option"

text \<open>
  Return codes. \<open>pcmk_ok\<close> and \<open>pcmk_err_diff_failed\<close> come from crm/error.h, \<open>ETIME\<close>
  and \<open>ENXIO\<close> from the Linux errno.h; none of the headers is among the sources, the
  values are theirs.
\<close>

definition pcmk_ok :: int where "pcmk_ok = 0"
definition pcmk_err_diff_failed :: int where "pcmk_err_diff_failed = 206"
definition ETIME :: int where "ETIME = 62"
definition ENXIO :: int where "ENXIO = 6"

text \<open>
  \<open>attrd_cib_callback(msg, call_id, rc, output, user_data)\<close> on the attribute table
  \<open>attr_hash\<close>. The result is the table after the call and the log lines written.
\<close>

definition attrd_cib_callback ::
  "(string \<rightharpoonup> attr_hash_entry) \<Rightarrow> int \<Rightarrow> int \<Rightarrow> attrd_callback_s \<Rightarrow>
   (string \<rightharpoonup> attr_hash_entry) \<times> attrd_effect list" where
  "attrd_cib_callback attr_hash call_id rc0 data =
     (let ok_for_delete = (value_cb data = None \<and> rc0 = - ENXIO) in
      if \<not> ok_for_delete \<and> call_id < 0 then (attr_hash, [Log_warn])
      else
        let rc = (if ok_for_delete then pcmk_ok else rc0) in
        if rc = pcmk_ok then
          (case attr_hash (attr data) of
             Some hash_entry \<Rightarrow>
               (attr_hash(attr data \<mapsto> hash_entry\<lparr>stored_value := value_cb data\<rparr>),
                [Log_debug])
           | None \<Rightarrow> (attr_hash, [Log_debug]))
        else if rc = - pcmk_err_diff_failed \<or> rc = - ETIME \<or> rc = - ENXIO
        then (attr_hash, [Log_warn])
        else (attr_hash, [Log_err]))"

section \<open>The IPC proxy\<close>


text \<open>The messages \<open>lrmd_internal_proxy_send\<close> carries to the remote node.\<close>

datatype proxy_msg =
    Ipc_response string int xmlNode
  | Ipc_event string xmlNode
  | Ipc_destroy string



definition is_not_set :: "32 word \<Rightarrow> 32 word \<Rightarrow> bool" where
  "is_not_set w b = (w AND b = 0)"






fun response_ids :: "proxy_msg list \<Rightarrow> int list" where
  \<comment> \<open>the ids of the responses among the relayed messages, in order\<close>
  "response_ids [] = []"
| "response_ids (Ipc_response sid i x # rest) = i # response_ids rest"
| "response_ids (Ipc_event sid x # rest) = response_ids rest"
| "response_ids (Ipc_destroy sid # rest) = response_ids rest"










section \<open>Alerts\<close>

text \<open>
  \<open>crm_alert_entry_t\<close> (crm/common/alerts_internal.h, not among the sources).
  \<open>select_attribute_name\<close> is a null-terminated vector of names or a null pointer;
  \<open>envvars\<close> is a hash table or a null pointer, its values may be null.
\<close>

record crm_alert_entry =
  id_alert :: string
  path :: string
  tstamp_format :: "string option"
  recipient :: "string option"
  select_attribute_name :: "string list option"
  envvars :: "(string \<times> string option) list option"
  timeout_alert :: int
  flags_alert :: "32 word"

text \<open>
  Modelled from the spec: \<open>enum crm_alert_flags\<close> is declared outside these sources.
  The event kinds are node, attribute, fencing and resource (section 4.2, Alert
  dispatch), each one bit of an entry's mask.
\<close>

datatype crm_alert_flags =
  crm_alert_node | crm_alert_fencing | crm_alert_resource | crm_alert_attribute

fun alert_flag_bits :: "crm_alert_flags \<Rightarrow> 32 word" where
  "alert_flag_bits crm_alert_node = 0x0001"
| "alert_flag_bits crm_alert_fencing = 0x0002"
| "alert_flag_bits crm_alert_resource = 0x0004"
| "alert_flag_bits crm_alert_attribute = 0x0008"

fun crm_alert_flag2text :: "crm_alert_flags \<Rightarrow> string" where
  "crm_alert_flag2text crm_alert_node = ''node''"
| "crm_alert_flag2text crm_alert_fencing = ''fencing''"
| "crm_alert_flag2text crm_alert_resource = ''resource''"
| "crm_alert_flag2text crm_alert_attribute = ''attribute''"

datatype crm_alert_keys_e =
  CRM_alert_recipient | CRM_alert_node | CRM_alert_nodeid | CRM_alert_kind
  | CRM_alert_version | CRM_alert_timestamp | CRM_alert_attribute_name
  | CRM_alert_attribute_value

type_synonym lrmd_key_value_t = "(string \<times> string) list"

text \<open>
  An alert agent started through \<open>lrmd->cmds->exec_alert\<close>: alert id, path of the
  agent, timeout and parameters.
\<close>

type_synonym alert_call = "string \<times> string \<times> int \<times> lrmd_key_value_t"

text \<open>
  What \<open>exec_alert_list\<close> takes from outside: the table \<open>crm_alert_keys\<close> of
  environment variable names for each key, \<open>VERSION\<close>, the formatted time stamp
  \<open>crm_time_format_hr(format, now)\<close>, and the return code of \<open>exec_alert\<close>.
\<close>

record alert_env =
  crm_alert_keys :: "crm_alert_keys_e \<Rightarrow> string list"
  VERSION :: string
  crm_time_format_hr :: "string option \<Rightarrow> string option"
  exec_alert :: "alert_call \<Rightarrow> int"

definition lrmd_key_value_add :: "lrmd_key_value_t \<Rightarrow> string \<Rightarrow> string \<Rightarrow> lrmd_key_value_t" where
  "lrmd_key_value_add head k v = head @ [(k, v)]"

definition alert_key2param ::
  "alert_env \<Rightarrow> lrmd_key_value_t \<Rightarrow> crm_alert_keys_e \<Rightarrow> string option \<Rightarrow> lrmd_key_value_t" where
  "alert_key2param env head name v =
     (let v' = (case v of None \<Rightarrow> [] | Some x \<Rightarrow> x)
      in foldl (\<lambda>h k. lrmd_key_value_add h k v') head (crm_alert_keys env name))"

definition alert_envvar2params :: "lrmd_key_value_t \<Rightarrow> crm_alert_entry \<Rightarrow> lrmd_key_value_t" where
  "alert_envvar2params head entry =
     (case envvars entry of
        None \<Rightarrow> head
      | Some tbl \<Rightarrow>
          foldl (\<lambda>h (k, v). case v of Some x \<Rightarrow> lrmd_key_value_add h k x | None \<Rightarrow> h) head tbl)"

definition is_target_alert :: "string list option \<Rightarrow> string option \<Rightarrow> bool" where
  "is_target_alert list v =
     (case v of
        None \<Rightarrow> False
      | Some x \<Rightarrow> (case list of None \<Rightarrow> True | Some names \<Rightarrow> x \<in> set names))"

text \<open>
  The loop of \<open>exec_alert_list\<close> over the entries, with its flags \<open>any_success\<close> and
  \<open>any_failure\<close> and the agents started so far.
\<close>

fun exec_alert_loop ::
  "alert_env \<Rightarrow> crm_alert_flags \<Rightarrow> string option \<Rightarrow> lrmd_key_value_t \<Rightarrow>
   crm_alert_entry list \<Rightarrow> bool \<times> bool \<times> alert_call list \<Rightarrow> bool \<times> bool \<times> alert_call list" where
  "exec_alert_loop env kind attr_name params [] acc = acc"
| "exec_alert_loop env kind attr_name params (entry # rest) (any_success, any_failure, calls) =
     (if is_not_set (flags_alert entry) (alert_flag_bits kind)
      then exec_alert_loop env kind attr_name params rest (any_success, any_failure, calls)
      else if kind = crm_alert_attribute
              \<and> \<not> is_target_alert (select_attribute_name entry) attr_name
      then exec_alert_loop env kind attr_name params rest (any_success, any_failure, calls)
      else
        let copy0 = alert_key2param env params CRM_alert_recipient (recipient entry);
            copy1 = (case crm_time_format_hr env (tstamp_format entry) of
                       Some ts \<Rightarrow> alert_key2param env copy0 CRM_alert_timestamp (Some ts)
                     | None \<Rightarrow> copy0);
            copy_params = alert_envvar2params copy1 entry;
            call = (id_alert entry, path entry, timeout_alert entry, copy_params);
            rc = exec_alert env call
        in if rc < 0
           then exec_alert_loop env kind attr_name params rest (any_success, True, calls @ [call])
           else exec_alert_loop env kind attr_name params rest (True, any_failure, calls @ [call]))"

text \<open>
  \<open>exec_alert_list(lrmd, alert_list, kind, attr_name, params)\<close>: the return code and
  the agents started, in order.
\<close>

definition exec_alert_list ::
  "alert_env \<Rightarrow> crm_alert_entry list \<Rightarrow> crm_alert_flags \<Rightarrow> string option \<Rightarrow>
   lrmd_key_value_t \<Rightarrow> int \<times> alert_call list" where
  "exec_alert_list env alert_list kind attr_name params0 =
     (let kind_s = crm_alert_flag2text kind;
          params1 = alert_key2param env params0 CRM_alert_kind (Some kind_s);
          params = alert_key2param env params1 CRM_alert_version (Some (VERSION env));
          (any_success, any_failure, calls) =
             exec_alert_loop env kind attr_name params alert_list (False, False, [])
      in ((if any_failure then (if any_success then - 1 else - 2) else pcmk_ok), calls))"

section \<open>The action executor\<close>

subsection \<open>Data\<close>

text \<open>
  The resource classes of crm/services.h and \<open>enum op_status\<close> of crm/lrmd.h; neither
  header is among the sources. Memory from \<open>calloc\<close> reads as \<open>PCMK_LRM_OP_DONE\<close>, the
  status of value zero.
\<close>

definition PCMK_RESOURCE_CLASS_OCF :: string where "PCMK_RESOURCE_CLASS_OCF = ''ocf''"
definition PCMK_RESOURCE_CLASS_SERVICE :: string where "PCMK_RESOURCE_CLASS_SERVICE = ''service''"
definition PCMK_RESOURCE_CLASS_LSB :: string where "PCMK_RESOURCE_CLASS_LSB = ''lsb''"
definition PCMK_RESOURCE_CLASS_SYSTEMD :: string where "PCMK_RESOURCE_CLASS_SYSTEMD = ''systemd''"
definition PCMK_RESOURCE_CLASS_UPSTART :: string where "PCMK_RESOURCE_CLASS_UPSTART = ''upstart''"
definition PCMK_RESOURCE_CLASS_HB :: string where "PCMK_RESOURCE_CLASS_HB = ''heartbeat''"
definition PCMK_RESOURCE_CLASS_NAGIOS :: string where "PCMK_RESOURCE_CLASS_NAGIOS = ''nagios''"

datatype op_status =
    PCMK_LRM_OP_PENDING
  | PCMK_LRM_OP_DONE
  | PCMK_LRM_OP_CANCELLED
  | PCMK_LRM_OP_TIMEOUT
  | PCMK_LRM_OP_NOTSUPPORTED
  | PCMK_LRM_OP_ERROR
  | PCMK_LRM_OP_ERROR_HARD
  | PCMK_LRM_OP_ERROR_FATAL
  | PCMK_LRM_OP_NOT_INSTALLED

text \<open>
  \<open>svc_action_private_t\<close>, the \<open>opaque\<close> part of an action. A callback is known by a
  number; \<open>repeat_timer\<close> and \<open>timerid\<close> are glib source ids, zero when unset; the
  last three fields tell whether the pointer is set.
\<close>

record svc_action_private =
  exec :: "string option"
  args :: "string list"
  callback :: "nat option"
  repeat_timer :: nat
  timerid :: nat
  pending :: bool
  stderr_gsource :: bool
  stdout_gsource :: bool

text \<open>\<open>svc_action_t\<close>; \<open>id\<close> and \<open>flags\<close> carry the suffix \<open>_op\<close>.\<close>

record svc_action =
  id_op :: string
  rsc :: "string option"
  action :: "string option"
  interval :: int
  standard :: "string option"
  provider :: "string option"
  agent :: "string option"
  timeout :: int
  params :: "(string \<times> string) list option"
  pid :: int
  cancel :: bool
  status :: op_status
  sequence :: "32 word"
  synchronous :: bool
  flags_op :: nat
  cb_data :: "nat option"
  opaque :: svc_action_private

text \<open>
  What the executor does to the outside world, in order: callbacks run (callback, action,
  status seen by the callback), glib sources removed, file descriptor watches dropped,
  pending bus calls cancelled, signals sent to children, repeat timers armed (action,
  delay, source id), and executions started. \<open>Exec_started\<close> also records the
  resource of the action and the resources of the actions in flight at that moment.
\<close>

datatype svc_event =
    Callback_invoked nat nat op_status
  | Source_removed nat
  | Fd_watch_removed nat
  | Pending_call_cancelled nat
  | Child_kill int
  | Repeat_timer_armed nat int nat
  | Exec_started nat "string option" "string option list"

text \<open>
  The executor's state: the actions allocated (a store from addresses to actions), the
  counter \<open>operations\<close> (a C \<open>int\<close> of 32 bits, as is the \<open>sequence\<close> of an action:
  \<open>++operations\<close> wraps, and \<open>sint\<close> reads the value), the table \<open>recurring_actions\<close>, the lists \<open>blocked_ops\<close> and
  \<open>inflight_ops\<close> of addresses, the flag \<open>processing_blocked_ops\<close>, the last source
  id that glib handed out, and the events so far. The table's keys are compared as
  strings (\<open>g_str_hash\<close>, \<open>g_str_equal\<close>). \<open>recurring_actions\<close> is a null pointer until
  \<open>init_recurring_actions\<close> allocates the table; every function that reads it takes
  the null pointer for the table without entries, which is the empty map here.
\<close>

type_synonym op_ref = nat

record services =
  heap :: "op_ref \<rightharpoonup> svc_action"
  operations :: "32 word"
  recurring_actions :: "string \<rightharpoonup> op_ref"
  blocked_ops :: "op_ref list"
  inflight_ops :: "op_ref list"
  processing_blocked_ops :: bool
  last_source_id :: nat
  trace :: "svc_event list"

text \<open>
  Modelled from the spec: the transports \<open>services_os_action_execute\<close>,
  \<open>systemd_unit_exec\<close> and \<open>upstart_job_exec\<close> are defined outside these sources. What
  a transport answers for an action is the parameter \<open>launch\<close>: a child process was
  started, a call on the service bus is pending, or the action could not be started.
\<close>

datatype launch_result = Child_started int | Bus_call_pending | Launch_failed

text \<open>
  The build and the host: the \<open>SUPPORT_\<close> switches and directories of the configured
  build, \<open>MAX_ARGC\<close> of services_private.h, whether \<open>stat\<close> finds a path, whether
  systemd and upstart know an agent, what the transports answer, and whether
  \<open>mainloop_child_kill\<close> succeeds for a process.
\<close>

record platform =
  SUPPORT_HEARTBEAT :: bool
  SUPPORT_SYSTEMD :: bool
  SUPPORT_UPSTART :: bool
  SUPPORT_NAGIOS :: bool
  SUPPORT_DBUS :: bool
  LSB_ROOT_DIR :: string
  OCF_ROOT_DIR :: string
  HB_RA_DIR :: string
  NAGIOS_PLUGIN_DIR :: string
  MAX_ARGC :: nat
  stat_ok :: "string \<Rightarrow> bool"
  systemd_unit_exists :: "string \<Rightarrow> bool"
  upstart_job_exists :: "string \<Rightarrow> bool"
  launch :: "svc_action \<Rightarrow> launch_result"
  mainloop_child_kill :: "int \<Rightarrow> bool"

subsection \<open>Keys and classes\<close>

text \<open>
  Modelled from the spec: \<open>generate_op_key\<close> is defined outside these sources. Section
  6.5: operations are identified by the string \<open><rsc_id>_<operation>_<interval_ms>\<close>.
\<close>

definition generate_op_key :: "string \<Rightarrow> string \<Rightarrow> int \<Rightarrow> string" where
  "generate_op_key rsc_id op_type interval_ms =
     rsc_id @ ''_'' @ op_type @ ''_'' @ crm_itoa interval_ms"

text \<open>
  \<open>crm_provider_required\<close> is declared in util.h and defined outside these sources. In
  \<open>resources_action_create\<close> it guards the branch that builds the path of an OCF agent
  from its provider, and the error for a missing provider names OCF: the class that
  requires a provider is \<open>ocf\<close>, compared without case like the other classes.
\<close>

definition crm_provider_required :: "string option \<Rightarrow> bool" where
  "crm_provider_required standard' =
     (case standard' of None \<Rightarrow> False | Some c \<Rightarrow> strcasecmp_eq c PCMK_RESOURCE_CLASS_OCF)"

text \<open>
  \<open>resources_find_service_class(agent)\<close>: the class found, and the probes made in
  order. \<open>LSB_ROOT_DIR\<close> is defined in every build (\<open>resources_action_create\<close> uses it
  outside any \<open>#ifdef\<close>), so the file test is always compiled in.
\<close>

datatype probe = Probe_lsb | Probe_systemd | Probe_upstart

definition resources_find_service_class :: "platform \<Rightarrow> string \<Rightarrow> string option \<times> probe list" where
  "resources_find_service_class pf agent' =
     (if stat_ok pf (LSB_ROOT_DIR pf @ ''/'' @ agent')
      then (Some PCMK_RESOURCE_CLASS_LSB, [Probe_lsb])
      else
        let probes1 = [Probe_lsb] @ (if SUPPORT_SYSTEMD pf then [Probe_systemd] else [])
        in if SUPPORT_SYSTEMD pf \<and> systemd_unit_exists pf agent'
           then (Some PCMK_RESOURCE_CLASS_SYSTEMD, probes1)
           else
             let probes2 = probes1 @ (if SUPPORT_UPSTART pf then [Probe_upstart] else [])
             in if SUPPORT_UPSTART pf \<and> upstart_job_exists pf agent'
                then (Some PCMK_RESOURCE_CLASS_UPSTART, probes2)
                else (None, probes2))"

definition expand_resource_class :: "platform \<Rightarrow> string \<Rightarrow> string \<Rightarrow> string \<Rightarrow> string" where
  "expand_resource_class pf rsc' standard' agent' =
     (if strcasecmp_eq standard' PCMK_RESOURCE_CLASS_SERVICE
      then (case fst (resources_find_service_class pf agent') of
              Some found_class \<Rightarrow> found_class
            | None \<Rightarrow> PCMK_RESOURCE_CLASS_LSB)
      else standard')"

subsection \<open>Freeing and cancelling\<close>

definition modify_op :: "services \<Rightarrow> op_ref \<Rightarrow> (svc_action \<Rightarrow> svc_action) \<Rightarrow> services" where
  \<comment> \<open>a write through the pointer \<open>p\<close>\<close>
  "modify_op s p f =
     (case heap s p of None \<Rightarrow> s | Some op \<Rightarrow> s\<lparr>heap := (heap s)(p \<mapsto> f op)\<rparr>)"

definition emit :: "services \<Rightarrow> svc_event list \<Rightarrow> services" where
  "emit s evs = s\<lparr>trace := trace s @ evs\<rparr>"

definition services_action_cleanup :: "platform \<Rightarrow> services \<Rightarrow> op_ref \<Rightarrow> services" where
  "services_action_cleanup pf s p =
     (case heap s p of
        None \<Rightarrow> s
      | Some op \<Rightarrow>
          let priv = opaque op;
              ev1 = (if SUPPORT_DBUS pf \<and> timerid priv \<noteq> 0 then [Source_removed (timerid priv)] else []);
              ev2 = (if SUPPORT_DBUS pf \<and> pending priv then [Pending_call_cancelled p] else []);
              ev3 = (if stderr_gsource priv then [Fd_watch_removed p] else []);
              ev4 = (if stdout_gsource priv then [Fd_watch_removed p] else []);
              priv' = priv\<lparr>timerid := (if SUPPORT_DBUS pf then 0 else timerid priv),
                          pending := (if SUPPORT_DBUS pf then False else pending priv),
                          stderr_gsource := False, stdout_gsource := False\<rparr>
          in emit (s\<lparr>heap := (heap s)(p \<mapsto> op\<lparr>opaque := priv'\<rparr>)\<rparr>) (ev1 @ ev2 @ ev3 @ ev4))"

text \<open>
  \<open>services_action_free(op)\<close>; \<open>None\<close> is the null pointer. Each \<open>CRM_CHECK\<close> that fails
  returns at once. An action that is freed leaves the store.
\<close>

definition services_action_free :: "platform \<Rightarrow> services \<Rightarrow> op_ref option \<Rightarrow> services" where
  "services_action_free pf s op' =
     (case op' of
        None \<Rightarrow> s
      | Some p \<Rightarrow>
          if p \<in> set (inflight_ops s) then s
          else if p \<in> set (blocked_ops s) then s
          else
            (case heap s p of
               None \<Rightarrow> s
             | Some op \<Rightarrow>
                 if recurring_actions s (id_op op) \<noteq> None then s
                 else
                   let s1 = services_action_cleanup pf s p;
                       s2 = (if repeat_timer (opaque op) \<noteq> 0
                             then emit s1 [Source_removed (repeat_timer (opaque op))]
                             else s1)
                   in s2\<lparr>heap := (heap s2)(p := None)\<rparr>))"

definition cancel_recurring_action :: "services \<Rightarrow> op_ref \<Rightarrow> services" where
  "cancel_recurring_action s p =
     (case heap s p of
        None \<Rightarrow> s
      | Some op \<Rightarrow>
          let s1 = s\<lparr>recurring_actions := (recurring_actions s)(id_op op := None)\<rparr>
          in if repeat_timer (opaque op) \<noteq> 0
             then emit (modify_op s1 p (\<lambda>a. a\<lparr>opaque := (opaque a)\<lparr>repeat_timer := 0\<rparr>\<rparr>))
                    [Source_removed (repeat_timer (opaque op))]
             else s1)"


text \<open>
  \<open>if (op->opaque->callback) op->opaque->callback(op)\<close>: the callback gets the action
  as it is at the call, and the event records the status it finds there.
\<close>

definition invoke_callback :: "services \<Rightarrow> op_ref \<Rightarrow> services" where
  "invoke_callback s p =
     (case heap s p of
        None \<Rightarrow> s
      | Some op \<Rightarrow>
          (case callback (opaque op) of
             Some cb \<Rightarrow> emit s [Callback_invoked cb p (status op)]
           | None \<Rightarrow> s))"


subsection \<open>Submitting and dispatching\<close>

text \<open>
  Modelled from the spec: \<open>recurring_action_timer\<close> is defined outside these sources.
  Section 4.2, Recurring schedule: for a duplicate of a running entry the executor will
  "fire a one-shot immediately after completion by cancelling and re-arming the repeat
  timer".
\<close>

definition recurring_action_timer :: "services \<Rightarrow> op_ref \<Rightarrow> services" where
  "recurring_action_timer s p =
     (case heap s p of
        None \<Rightarrow> s
      | Some op \<Rightarrow>
          let t = last_source_id s + 1;
              old = repeat_timer (opaque op);
              s1 = modify_op (s\<lparr>last_source_id := t\<rparr>) p
                     (\<lambda>a. a\<lparr>opaque := (opaque a)\<lparr>repeat_timer := t\<rparr>\<rparr>)
          in emit s1 ((if old \<noteq> 0 then [Source_removed old] else []) @ [Repeat_timer_armed p 0 t]))"

text \<open>
  \<open>handle_duplicate_recurring(op)\<close>: whether a duplicate was found, and the state after
  the call.
\<close>

definition handle_duplicate_recurring :: "platform \<Rightarrow> services \<Rightarrow> op_ref \<Rightarrow> bool \<times> services" where
  "handle_duplicate_recurring pf s p =
     (case heap s p of
        None \<Rightarrow> (False, s)
      | Some op \<Rightarrow>
          (case recurring_actions s (id_op op) of
             None \<Rightarrow> (False, s)
           | Some d \<Rightarrow>
               if d = p then (False, s)
               else
                 (case heap s d of
                    None \<Rightarrow> (False, s)
                  | Some dup \<Rightarrow>
                      let s1 = (if callback (opaque op) \<noteq> None
                                then modify_op
                                       (modify_op s d
                                          (\<lambda>a. a\<lparr>opaque := (opaque a)\<lparr>callback := callback (opaque op)\<rparr>,
                                                 cb_data := cb_data op\<rparr>))
                                       p (\<lambda>a. a\<lparr>cb_data := None\<rparr>)
                                else s);
                          s2 = (if pid dup \<noteq> 0
                                then
                                  let s1' = (if repeat_timer (opaque op) \<noteq> 0
                                             then emit (modify_op s1 p
                                                    (\<lambda>a. a\<lparr>opaque := (opaque a)\<lparr>repeat_timer := 0\<rparr>\<rparr>))
                                                    [Source_removed (repeat_timer (opaque op))]
                                             else s1)
                                  in recurring_action_timer s1' d
                                else s1)
                      in (True, services_action_free pf s2 (Some p)))))"

definition services_add_inflight_op :: "services \<Rightarrow> op_ref option \<Rightarrow> services" where
  "services_add_inflight_op s op' =
     (case op' of
        None \<Rightarrow> s
      | Some p \<Rightarrow>
          (case heap s p of
             None \<Rightarrow> s
           | Some op \<Rightarrow>
               if rsc op \<noteq> None then s\<lparr>inflight_ops := inflight_ops s @ [p]\<rparr> else s))"

definition rsc_at :: "services \<Rightarrow> op_ref \<Rightarrow> string option" where
  \<comment> \<open>\<open>op->rsc\<close> read through the pointer\<close>
  "rsc_at s q = (case heap s q of None \<Rightarrow> None | Some op \<Rightarrow> rsc op)"

definition is_op_blocked :: "services \<Rightarrow> string option \<Rightarrow> bool" where
  "is_op_blocked s rsc' =
     list_ex (\<lambda>q. case heap s q of None \<Rightarrow> False | Some op \<Rightarrow> safe_str_eq (rsc op) rsc')
       (inflight_ops s)"

text \<open>
  Modelled from the spec: the transports are defined outside these sources. Section
  4.2, Queueing and serialization: "On dispatch, the submission is appended to the
  in-flight list (only if it has a non-empty rsc_id and is asynchronous)", which
  \<open>services_add_inflight_op\<close> does. A transport that cannot start the action answers
  FALSE and leaves the executor's state as it is.
\<close>

definition services_os_action_execute :: "platform \<Rightarrow> services \<Rightarrow> op_ref \<Rightarrow> bool \<times> services" where
  "services_os_action_execute pf s p =
     (case heap s p of
        None \<Rightarrow> (False, s)
      | Some op \<Rightarrow>
          (case launch pf op of
             Child_started child \<Rightarrow>
               (True,
                services_add_inflight_op
                  (emit (modify_op s p (\<lambda>a. a\<lparr>pid := child\<rparr>))
                     [Exec_started p (rsc op) (map (rsc_at s) (inflight_ops s))])
                  (Some p))
           | Bus_call_pending \<Rightarrow> (False, s)
           | Launch_failed \<Rightarrow> (False, s)))"

definition bus_unit_exec :: "platform \<Rightarrow> services \<Rightarrow> op_ref \<Rightarrow> bool \<times> services" where
  \<comment> \<open>\<open>systemd_unit_exec\<close> and \<open>upstart_job_exec\<close>\<close>
  "bus_unit_exec pf s p =
     (case heap s p of
        None \<Rightarrow> (False, s)
      | Some op \<Rightarrow>
          (case launch pf op of
             Bus_call_pending \<Rightarrow>
               (True,
                services_add_inflight_op
                  (emit (modify_op s p (\<lambda>a. a\<lparr>opaque := (opaque a)\<lparr>pending := True\<rparr>\<rparr>))
                     [Exec_started p (rsc op) (map (rsc_at s) (inflight_ops s))])
                  (Some p))
           | Child_started child \<Rightarrow> (False, s)
           | Launch_failed \<Rightarrow> (False, s)))"

definition action_exec_helper :: "platform \<Rightarrow> services \<Rightarrow> op_ref \<Rightarrow> bool \<times> services" where
  "action_exec_helper pf s p =
     (case heap s p of
        None \<Rightarrow> (False, s)
      | Some op \<Rightarrow>
          (case standard op of
             None \<Rightarrow> services_os_action_execute pf s p
           | Some c \<Rightarrow>
               if strcasecmp_eq c PCMK_RESOURCE_CLASS_UPSTART
               then (if SUPPORT_UPSTART pf then bus_unit_exec pf s p else (False, s))
               else if strcasecmp_eq c PCMK_RESOURCE_CLASS_SYSTEMD
               then (if SUPPORT_SYSTEMD pf then bus_unit_exec pf s p else (False, s))
               else services_os_action_execute pf s p))"

text \<open>
  \<open>services_action_async(op, action_callback)\<close>: the value returned and the state after
  the call.
\<close>

definition services_action_async ::
  "platform \<Rightarrow> services \<Rightarrow> op_ref \<Rightarrow> nat option \<Rightarrow> bool \<times> services" where
  "services_action_async pf s p action_callback =
     (case heap s p of
        None \<Rightarrow> (False, s)
      | Some op \<Rightarrow>
          let s1 = modify_op s p
                     (\<lambda>a. a\<lparr>synchronous := False,
                            opaque := (if action_callback \<noteq> None
                                       then (opaque a)\<lparr>callback := action_callback\<rparr>
                                       else opaque a)\<rparr>);
              (dup, s2) = (if interval op > 0 then handle_duplicate_recurring pf s1 p
                           else (False, s1))
          in if dup then (True, s2)
             else
               let s3 = (if interval op > 0
                         then s2\<lparr>recurring_actions := (recurring_actions s2)(id_op op \<mapsto> p)\<rparr>
                         else s2)
               in if rsc op \<noteq> None \<and> is_op_blocked s3 (rsc op)
                  then (True, s3\<lparr>blocked_ops := blocked_ops s3 @ [p]\<rparr>)
                  else action_exec_helper pf s3 p)"

subsection \<open>Completion and the blocked list\<close>

text \<open>
  \<open>services_untrack_op(op)\<close> ends with a call of \<open>handle_blocked_ops\<close>, and
  \<open>handle_blocked_ops\<close> reaches \<open>services_untrack_op\<close> again through
  \<open>operation_finalize\<close>. The flag \<open>processing_blocked_ops\<close> cuts the recursion: a call
  of \<open>handle_blocked_ops\<close> made while the flag is set returns at its first test. So the
  functions take the drain to run as the parameter \<open>drain\<close>: inside the loop of
  \<open>handle_blocked_ops\<close> it is \<open>handle_blocked_ops_busy\<close>, elsewhere
  \<open>handle_blocked_ops\<close> itself.
\<close>

definition handle_blocked_ops_busy :: "services \<Rightarrow> services" where
  "handle_blocked_ops_busy s = s"

definition services_untrack_op_with :: "(services \<Rightarrow> services) \<Rightarrow> services \<Rightarrow> op_ref \<Rightarrow> services" where
  "services_untrack_op_with drain s p =
     drain (s\<lparr>inflight_ops := remove1 p (inflight_ops s),
              blocked_ops := remove1 p (blocked_ops s)\<rparr>)"

text \<open>
  Modelled from the spec: \<open>operation_finalize\<close> is defined outside these sources.
  Section 3, lifecycle of an action: completed, then "if recurring and not cancelled, a
  next-execution timer is armed", "destroyed when completed and no longer tracked".
  Section 4.2: the cancel mark is there "so the completion path will not re-arm"; "on
  completion, the action is removed from the in-flight list", the callback is invoked,
  then the blocked list is drained. An action that is not kept for another run is
  freed with \<open>services_action_free\<close>.
\<close>

definition operation_finalize_with ::
  "(services \<Rightarrow> services) \<Rightarrow> platform \<Rightarrow> services \<Rightarrow> op_ref \<Rightarrow> services" where
  "operation_finalize_with drain pf s p =
     (case heap s p of
        None \<Rightarrow> s
      | Some op \<Rightarrow>
          let recurring = (interval op > 0 \<and> \<not> cancel op);
              t = last_source_id s + 1;
              s1 = (if interval op > 0
                    then (if cancel op
                          then cancel_recurring_action
                                 (modify_op s p (\<lambda>a. a\<lparr>status := PCMK_LRM_OP_CANCELLED\<rparr>)) p
                          else emit (modify_op (s\<lparr>last_source_id := t\<rparr>) p
                                       (\<lambda>a. a\<lparr>opaque := (opaque a)\<lparr>repeat_timer := t\<rparr>\<rparr>))
                                 [Repeat_timer_armed p (interval op) t])
                    else s);
              s2 = invoke_callback s1 p;
              s3 = modify_op s2 p (\<lambda>a. a\<lparr>pid := 0\<rparr>);
              s4 = services_untrack_op_with drain s3 p
          in if \<not> recurring \<and> \<not> synchronous op
             then services_action_free pf s4 (Some p)
             else services_action_cleanup pf s4 p)"

text \<open>
  The first loop of \<open>handle_blocked_ops\<close>, over the blocked list as it is when the loop
  starts, with the state and \<open>executed_ops\<close>.
\<close>

fun handle_blocked_loop ::
  "platform \<Rightarrow> op_ref list \<Rightarrow> services \<times> op_ref list \<Rightarrow> services \<times> op_ref list" where
  "handle_blocked_loop pf [] acc = acc"
| "handle_blocked_loop pf (p # rest) (s, executed_ops) =
     (case heap s p of
        None \<Rightarrow> handle_blocked_loop pf rest (s, executed_ops)
      | Some op \<Rightarrow>
          if is_op_blocked s (rsc op) then handle_blocked_loop pf rest (s, executed_ops)
          else
            let (res, s1) = action_exec_helper pf s p;
                s2 = (if res then s1
                      else operation_finalize_with handle_blocked_ops_busy pf
                             (modify_op s1 p (\<lambda>a. a\<lparr>status := PCMK_LRM_OP_ERROR\<rparr>)) p)
            in handle_blocked_loop pf rest (s2, executed_ops @ [p]))"

definition handle_blocked_ops :: "platform \<Rightarrow> services \<Rightarrow> services" where
  "handle_blocked_ops pf s =
     (if processing_blocked_ops s then s
      else
        let s1 = s\<lparr>processing_blocked_ops := True\<rparr>;
            (s2, executed_ops) = handle_blocked_loop pf (blocked_ops s1) (s1, []);
            s3 = s2\<lparr>blocked_ops := foldl (\<lambda>b p. remove1 p b) (blocked_ops s2) executed_ops\<rparr>
        in s3\<lparr>processing_blocked_ops := False\<rparr>)"


definition operation_finalize :: "platform \<Rightarrow> services \<Rightarrow> op_ref \<Rightarrow> services" where
  "operation_finalize pf s p = operation_finalize_with (handle_blocked_ops pf) pf s p"

subsection \<open>Creating an action\<close>

definition XML_ATTR_CRM_VERSION :: string where "XML_ATTR_CRM_VERSION = ''crm_feature_set''"
definition CRM_META :: string where "CRM_META = ''CRM_meta''"

fun strstr :: "string \<Rightarrow> string \<Rightarrow> bool" where
  \<comment> \<open>\<open>strstr(haystack, needle) != NULL\<close>\<close>
  "strstr [] needle = (needle = [])"
| "strstr (c # cs) needle = (take (length needle) (c # cs) = needle \<or> strstr cs needle)"

fun nagios_args :: "nat \<Rightarrow> nat \<Rightarrow> (string \<times> string) list \<Rightarrow> string list" where
  "nagios_args args_size index [] = []"
| "nagios_args args_size index ((k, v) # rest) =
     (if \<not> (index + 3 \<le> args_size) then []
      else if safe_str_eq (Some k) (Some XML_ATTR_CRM_VERSION) \<or> strstr k (CRM_META @ ''_'')
      then nagios_args args_size index rest
      else (''--'' @ k) # v # nagios_args args_size (index + 2) rest)"

definition agent_path :: "string \<Rightarrow> string \<Rightarrow> string" where
  \<comment> \<open>an absolute agent is used as it is, any other is looked up under \<open>dir\<close>\<close>
  "agent_path dir agent' =
     (case agent' of
        [] \<Rightarrow> dir @ ''/'' @ agent'
      | c # cs \<Rightarrow> if c = CHR ''/'' then agent' else dir @ ''/'' @ agent')"

text \<open>
  \<open>resources_action_create\<close>. \<open>p\<close> is the address that \<open>calloc\<close> returns for the new
  action. The result is the pointer returned (\<open>None\<close> for NULL) and the state after the
  call; the table \<open>params\<close> belongs to the caller until the action takes it.
\<close>

definition resources_action_create ::
  "platform \<Rightarrow> services \<Rightarrow> op_ref \<Rightarrow> string option \<Rightarrow> string option \<Rightarrow> string option \<Rightarrow>
   string option \<Rightarrow> string option \<Rightarrow> int \<Rightarrow> int \<Rightarrow> (string \<times> string) list option \<Rightarrow> nat \<Rightarrow>
   op_ref option \<times> services" where
  "resources_action_create pf s p name standard' provider' agent' action' interval' timeout'
      params' flags' =
     (if crm_strlen_zero name then (None, s)
      else if crm_strlen_zero standard' then (None, s)
      else if crm_provider_required standard' \<and> crm_strlen_zero provider' then (None, s)
      else if crm_strlen_zero agent' then (None, s)
      else if crm_strlen_zero action' then (None, s)
      else
        (case (name, standard', agent', action') of
           (Some n, Some st, Some ag, Some ac) \<Rightarrow>
             let cls = expand_resource_class pf n st ag;
                 seq = operations s + 1;
                 act = (if safe_str_eq (Some ac) (Some ''monitor'')
                           \<and> ((SUPPORT_HEARTBEAT pf
                                \<and> safe_str_eq (Some cls) (Some PCMK_RESOURCE_CLASS_HB))
                               \<or> safe_str_eq (Some cls) (Some PCMK_RESOURCE_CLASS_LSB))
                        then ''status'' else ac);
                 priv0 = \<lparr>exec = None, args = [], callback = None, repeat_timer = 0,
                          timerid = 0, pending = False, stderr_gsource = False,
                          stdout_gsource = False\<rparr>;
                 op0 = \<lparr>id_op = generate_op_key n ac interval', rsc = Some n,
                        action = Some act, interval = interval', standard = Some cls,
                        provider = None, agent = Some ag, timeout = timeout', params = None,
                        pid = 0, cancel = False, status = PCMK_LRM_OP_DONE, sequence = seq,
                        synchronous = False, flags_op = flags', cb_data = None,
                        opaque = priv0\<rparr>;
                 s0 = s\<lparr>operations := seq\<rparr>;
                 built = (\<lambda>op. (Some p, s0\<lparr>heap := (heap s0)(p \<mapsto> op)\<rparr>))
             in if crm_provider_required (Some cls)
                then
                  (let prov = (case provider' of Some x \<Rightarrow> x | None \<Rightarrow> []);
                       ex = OCF_ROOT_DIR pf @ ''/resource.d/'' @ prov @ ''/'' @ ag
                   in built (op0\<lparr>provider := provider', params := params',
                                 opaque := priv0\<lparr>exec := Some ex, args := [ex, ac]\<rparr>\<rparr>))
                else if strcasecmp_eq cls PCMK_RESOURCE_CLASS_LSB
                then
                  (let ex = agent_path (LSB_ROOT_DIR pf) ag
                   in built (op0\<lparr>opaque := priv0\<lparr>exec := Some ex, args := [ex, act]\<rparr>\<rparr>))
                else if SUPPORT_HEARTBEAT pf \<and> strcasecmp_eq cls PCMK_RESOURCE_CLASS_HB
                then
                  (let ex = agent_path (HB_RA_DIR pf) ag;
                       positional =
                         (case params' of
                            None \<Rightarrow> []
                          | Some ps \<Rightarrow>
                              List.map_filter (\<lambda>i. map_of ps (crm_itoa (int i)))
                                [1 ..< MAX_ARGC pf - 2])
                   in built (op0\<lparr>opaque := priv0\<lparr>exec := Some ex,
                                                    args := [ex] @ positional @ [act]\<rparr>\<rparr>))
                else if SUPPORT_SYSTEMD pf \<and> strcasecmp_eq cls PCMK_RESOURCE_CLASS_SYSTEMD
                then built (op0\<lparr>opaque := priv0\<lparr>exec := Some ''systemd-dbus''\<rparr>\<rparr>)
                else if SUPPORT_UPSTART pf \<and> strcasecmp_eq cls PCMK_RESOURCE_CLASS_UPSTART
                then built (op0\<lparr>opaque := priv0\<lparr>exec := Some ''upstart-dbus''\<rparr>\<rparr>)
                else if SUPPORT_NAGIOS pf \<and> strcasecmp_eq cls PCMK_RESOURCE_CLASS_NAGIOS
                then
                  (let ex = agent_path (NAGIOS_PLUGIN_DIR pf) ag;
                       more =
                         (if safe_str_eq (Some act) (Some ''monitor'') \<and> interval' = 0
                          then [''--version'']
                          else (case params' of
                                  None \<Rightarrow> []
                                | Some ps \<Rightarrow> nagios_args (MAX_ARGC pf) 1 ps))
                   in built (op0\<lparr>opaque := priv0\<lparr>exec := Some ex, args := [ex] @ more\<rparr>\<rparr>))
                else (None, services_action_free pf (s0\<lparr>heap := (heap s0)(p \<mapsto> op0)\<rparr>) (Some p))
         | _ \<Rightarrow> (None, s)))"

section \<open>The specification's words\<close>

text \<open>
  The specification resolves the service alias by probing the classes in a fixed
  order and taking the first one that provides the agent. \<open>probes_compiled\<close> is that
  order, as far as the build supports the classes; \<open>probe_finds\<close> tells whether a
  class provides the agent; \<open>spec_find_service_class\<close> probes in order up to the first
  class that does, and answers that class and the probes made.
\<close>

definition probes_compiled :: "platform \<Rightarrow> probe list" where
  "probes_compiled pf =
     [Probe_lsb] @ (if SUPPORT_SYSTEMD pf then [Probe_systemd] else [])
       @ (if SUPPORT_UPSTART pf then [Probe_upstart] else [])"

fun probe_finds :: "platform \<Rightarrow> string \<Rightarrow> probe \<Rightarrow> bool" where
  "probe_finds pf agent' Probe_lsb = stat_ok pf (LSB_ROOT_DIR pf @ ''/'' @ agent')"
| "probe_finds pf agent' Probe_systemd = systemd_unit_exists pf agent'"
| "probe_finds pf agent' Probe_upstart = upstart_job_exists pf agent'"

fun probe_class :: "probe \<Rightarrow> string" where
  "probe_class Probe_lsb = PCMK_RESOURCE_CLASS_LSB"
| "probe_class Probe_systemd = PCMK_RESOURCE_CLASS_SYSTEMD"
| "probe_class Probe_upstart = PCMK_RESOURCE_CLASS_UPSTART"

definition spec_find_service_class :: "platform \<Rightarrow> string \<Rightarrow> string option \<times> probe list" where
  "spec_find_service_class pf agent' =
     (let misses = takeWhile (\<lambda>pr. \<not> probe_finds pf agent' pr) (probes_compiled pf);
          others = dropWhile (\<lambda>pr. \<not> probe_finds pf agent' pr) (probes_compiled pf)
      in (case others of
            [] \<Rightarrow> (None, misses)
          | hit # later \<Rightarrow> (Some (probe_class hit), misses @ [hit])))"

section \<open>States of the executor\<close>


text \<open>
  \<open>known_class\<close>: the classes for which \<open>resources_action_create\<close> has a branch in
  this build; any other class is an unknown class.
\<close>

definition known_class :: "platform \<Rightarrow> string \<Rightarrow> bool" where
  "known_class pf cls =
     (crm_provider_required (Some cls)
      \<or> strcasecmp_eq cls PCMK_RESOURCE_CLASS_LSB
      \<or> SUPPORT_HEARTBEAT pf \<and> strcasecmp_eq cls PCMK_RESOURCE_CLASS_HB
      \<or> SUPPORT_SYSTEMD pf \<and> strcasecmp_eq cls PCMK_RESOURCE_CLASS_SYSTEMD
      \<or> SUPPORT_UPSTART pf \<and> strcasecmp_eq cls PCMK_RESOURCE_CLASS_UPSTART
      \<or> SUPPORT_NAGIOS pf \<and> strcasecmp_eq cls PCMK_RESOURCE_CLASS_NAGIOS)"









subsection \<open>Sample values\<close>

definition entry_load :: attr_hash_entry where
  "entry_load =
     \<lparr>uuid = None, id_attr = ''load'', set_attr = None, section_attr = Some ''status'',
      value_attr = Some ''3'', stored_value = Some ''3'', timeout_attr = 500,
      dampen = Some ''500ms'', timer_id = 0, user = None\<rparr>"

definition attrd_plain :: attrd_env where
  "attrd_plain =
     \<lparr>ENABLE_ACL = True, attrd_uname = Some ''node1'',
      attrd_value_needs_expansion = (\<lambda>v. False),
      attrd_expand_value = (\<lambda>v old_value. 0),
      crm_get_msec = (\<lambda>t. if t = ''2s'' then 2000 else 500),
      crm_int_helper = (\<lambda>v. if v = ''1'' then 1 else 0),
      g_timeout_add = (\<lambda>ms entry. 7)\<rparr>"

definition update_load_3 :: xmlNode where
  "update_load_3 =
     [F_ATTRD_TASK \<mapsto> ''update'', F_ATTRD_ATTRIBUTE \<mapsto> ''load'', F_ATTRD_VALUE \<mapsto> ''3'',
      F_ATTRD_DAMPEN \<mapsto> ''2s'']"





definition alert_a1 :: crm_alert_entry where
  "alert_a1 =
     \<lparr>id_alert = ''a1'', path = ''/usr/share/alerts/a1.sh'', tstamp_format = None,
      recipient = Some ''admin'', select_attribute_name = Some [''foo''], envvars = None,
      timeout_alert = 30000, flags_alert = 0x0008\<rparr>"

definition alert_a2 :: crm_alert_entry where
  "alert_a2 =
     \<lparr>id_alert = ''a2'', path = ''/usr/share/alerts/a2.sh'', tstamp_format = None,
      recipient = Some ''admin'', select_attribute_name = None, envvars = None,
      timeout_alert = 30000, flags_alert = 0x0008\<rparr>"

definition alert_a3 :: crm_alert_entry where
  "alert_a3 =
     \<lparr>id_alert = ''a3'', path = ''/usr/share/alerts/a3.sh'', tstamp_format = None,
      recipient = Some ''admin'', select_attribute_name = None, envvars = None,
      timeout_alert = 30000, flags_alert = 0x0001\<rparr>"

definition alert_env_ok :: alert_env where
  "alert_env_ok =
     \<lparr>crm_alert_keys = (\<lambda>k. []), VERSION = ''1.1.18'',
      crm_time_format_hr = (\<lambda>f. None), exec_alert = (\<lambda>c. 0)\<rparr>"

definition host_plain :: platform where
  "host_plain =
     \<lparr>SUPPORT_HEARTBEAT = False, SUPPORT_SYSTEMD = True, SUPPORT_UPSTART = True,
      SUPPORT_NAGIOS = False, SUPPORT_DBUS = True,
      LSB_ROOT_DIR = ''/etc/init.d'', OCF_ROOT_DIR = ''/usr/lib/ocf'',
      HB_RA_DIR = ''/etc/ha.d/resource.d'', NAGIOS_PLUGIN_DIR = ''/usr/lib/nagios/plugins'',
      MAX_ARGC = 255,
      stat_ok = (\<lambda>file. file = ''/etc/init.d/httpd''),
      systemd_unit_exists = (\<lambda>unit. unit = ''foo'' \<or> unit = ''httpd''),
      upstart_job_exists = (\<lambda>job. job = ''foo'' \<or> job = ''bar''),
      launch = (\<lambda>op. Child_started 4242),
      mainloop_child_kill = (\<lambda>child. True)\<rparr>"

definition private_idle :: svc_action_private where
  "private_idle =
     \<lparr>exec = Some ''/usr/lib/ocf/resource.d/heartbeat/Dummy'',
      args = [''/usr/lib/ocf/resource.d/heartbeat/Dummy'', ''monitor''],
      callback = Some 1, repeat_timer = 0, timerid = 0, pending = False,
      stderr_gsource = False, stdout_gsource = False\<rparr>"

definition monitor_r :: svc_action where
  "monitor_r =
     \<lparr>id_op = ''r_monitor_5000'', rsc = Some ''r'', action = Some ''monitor'', interval = 5000,
      standard = Some ''ocf'', provider = Some ''heartbeat'', agent = Some ''Dummy'',
      timeout = 20000, params = None, pid = 0, cancel = False, status = PCMK_LRM_OP_DONE,
      sequence = 1, synchronous = False, flags_op = 0, cb_data = Some 10,
      opaque = private_idle\<rparr>"

definition start_r :: svc_action where
  "start_r =
     monitor_r\<lparr>id_op := ''r_start_0'', action := Some ''start'', interval := 0, pid := 100,
               sequence := 2, cb_data := Some 20\<rparr>"

definition services_empty :: services where
  "services_empty =
     \<lparr>heap = Map.empty, operations = 0, recurring_actions = Map.empty, blocked_ops = [],
      inflight_ops = [], processing_blocked_ops = False, last_source_id = 0, trace = []\<rparr>"

text \<open>
  A recurring monitor of resource \<open>r\<close> at address 1, waiting for its next run, and a
  second descriptor of the same monitor at address 2 that has not been submitted yet.
\<close>

definition services_monitor_idle :: services where
  "services_monitor_idle =
     services_empty
       \<lparr>heap := [1 \<mapsto> monitor_r\<lparr>opaque := private_idle\<lparr>repeat_timer := 3\<rparr>\<rparr>,
                 2 \<mapsto> monitor_r\<lparr>sequence := 3, cb_data := Some 30,
                                opaque := private_idle\<lparr>callback := None\<rparr>\<rparr>],
        operations := 3,
        recurring_actions := [''r_monitor_5000'' \<mapsto> 1],
        last_source_id := 3\<rparr>"

text \<open>The same, while a start of \<open>r\<close> (address 3) is in flight.\<close>

definition services_start_inflight :: services where
  "services_start_inflight =
     services_monitor_idle
       \<lparr>heap := (heap services_monitor_idle)(3 \<mapsto> start_r), inflight_ops := [3]\<rparr>"



text \<open>
  The same again, with a stop of \<open>r\<close> allocated at address 4 and not submitted yet.
\<close>

definition stop_r :: svc_action where
  "stop_r =
     monitor_r\<lparr>id_op := ''r_stop_0'', action := Some ''stop'', interval := 0, sequence := 4,
               cb_data := Some 40\<rparr>"

definition services_stop_created :: services where
  "services_stop_created =
     services_start_inflight
       \<lparr>heap := (heap services_start_inflight)(4 \<mapsto> stop_r), operations := 4\<rparr>"




section \<open>Properties of the attribute daemon\<close>

lemma safe_str_eq_refl: "safe_str_eq a a"
  by (cases a) (simp_all add: safe_str_eq_def crm_str_eq_def strcasecmp_eq_def)

text \<open>
  C7. The completion callback of an attribute commit. On success (\<open>rc\<close> is \<open>pcmk_ok\<close>
  for a call that was submitted, \<open>call_id >= 0\<close>) the entry's \<open>stored_value\<close> becomes
  the value that was submitted. The transient errors diff-failed, \<open>-ETIME\<close> (election
  in progress, timed out) and \<open>-ENXIO\<close> (missing section) for an update are logged as
  warnings and leave the table as it is. \<open>-ENXIO\<close> for a delete (null value) is taken
  as success: the entry's \<open>stored_value\<close> becomes null.
\<close>

theorem attrd_cib_callback_outcomes:
  "(rc = pcmk_ok \<and> 0 \<le> call_id \<longrightarrow>
      attrd_cib_callback attr_hash call_id rc data =
        ((case attr_hash (attr data) of
            Some e \<Rightarrow> attr_hash(attr data \<mapsto> e\<lparr>stored_value := value_cb data\<rparr>)
          | None \<Rightarrow> attr_hash), [Log_debug]))
   \<and> ((rc = - pcmk_err_diff_failed \<or> rc = - ETIME \<or> (rc = - ENXIO \<and> value_cb data \<noteq> None)) \<longrightarrow>
      attrd_cib_callback attr_hash call_id rc data = (attr_hash, [Log_warn]))
   \<and> (rc = - ENXIO \<and> value_cb data = None \<longrightarrow>
      attrd_cib_callback attr_hash call_id rc data =
        ((case attr_hash (attr data) of
            Some e \<Rightarrow> attr_hash(attr data \<mapsto> e\<lparr>stored_value := None\<rparr>)
          | None \<Rightarrow> attr_hash), [Log_debug]))"
  by (auto simp: attrd_cib_callback_def Let_def pcmk_ok_def pcmk_err_diff_failed_def
        ETIME_def ENXIO_def split: option.splits)

theorem attrd_cib_callback_outcomes_witness:
  "attrd_cib_callback [''load'' \<mapsto> entry_load] 3 0 \<lparr>attr = ''load'', value_cb = Some ''4''\<rparr>
     = ([''load'' \<mapsto> entry_load\<lparr>stored_value := Some ''4''\<rparr>], [Log_debug])
   \<and> attrd_cib_callback [''load'' \<mapsto> entry_load] 3 (- 62) \<lparr>attr = ''load'', value_cb = Some ''4''\<rparr>
     = ([''load'' \<mapsto> entry_load], [Log_warn])
   \<and> attrd_cib_callback [''load'' \<mapsto> entry_load] 3 (- 6) \<lparr>attr = ''load'', value_cb = None\<rparr>
     = ([''load'' \<mapsto> entry_load\<lparr>stored_value := None\<rparr>], [Log_debug])"
  using attrd_cib_callback_outcomes
          [of 0 3 "[''load'' \<mapsto> entry_load]" "\<lparr>attr = ''load'', value_cb = Some ''4''\<rparr>"]
        attrd_cib_callback_outcomes
          [of "- 62" 3 "[''load'' \<mapsto> entry_load]" "\<lparr>attr = ''load'', value_cb = Some ''4''\<rparr>"]
        attrd_cib_callback_outcomes
          [of "- 6" 3 "[''load'' \<mapsto> entry_load]" "\<lparr>attr = ''load'', value_cb = None\<rparr>"]
  by (simp add: pcmk_ok_def pcmk_err_diff_failed_def ETIME_def ENXIO_def)

lemma update_local_attr_ignored:
  assumes "safe_str_eq (crm_element_value msg F_ATTRD_VALUE) (value_attr e)"
    and "safe_str_eq (crm_element_value msg F_ATTRD_VALUE) (stored_value e)"
  shows "update_local_attr env msg e =
          (e\<lparr>uuid := (case uuid e of
                         None \<Rightarrow> crm_element_value msg F_ATTRD_KEY
                       | Some u \<Rightarrow> Some u)\<rparr>, [])"
  using assms
  by (cases "uuid e"; cases "crm_element_value msg F_ATTRD_KEY")
     (simp_all add: update_local_attr_def)

lemma update_local_attr_waiting:
  assumes armed: "timer_id e \<noteq> 0"
    and same: "safe_str_eq
            (case crm_element_value msg F_ATTRD_VALUE of
               None \<Rightarrow> None
             | Some x \<Rightarrow>
                 (case expand_attr_value env x (value_attr e) of
                    Some y \<Rightarrow> Some y
                  | None \<Rightarrow> Some x))
            (value_attr e)"
  shows "update_local_attr env msg e =
          (e\<lparr>uuid := (case uuid e of
                         None \<Rightarrow> crm_element_value msg F_ATTRD_KEY
                       | Some u \<Rightarrow> Some u)\<rparr>, [])"
proof (cases "crm_element_value msg F_ATTRD_VALUE")
  case None
  with same armed show ?thesis
    by (cases "uuid e"; cases "crm_element_value msg F_ATTRD_KEY")
       (simp_all add: update_local_attr_def Let_def)
next
  case sv: (Some x)
  show ?thesis
  proof (cases "expand_attr_value env x (value_attr e)")
    case None
    with sv same armed show ?thesis
      by (cases "uuid e"; cases "crm_element_value msg F_ATTRD_KEY")
         (simp_all add: update_local_attr_def Let_def)
  next
    case (Some y)
    with sv same armed show ?thesis
      by (cases "uuid e"; cases "crm_element_value msg F_ATTRD_KEY")
         (simp_all add: update_local_attr_def Let_def)
  qed
qed

lemma update_task_branch:
  assumes "t = None \<or> safe_str_eq t (Some ATTRD_OP_UPDATE)"
  shows "\<not> safe_str_eq t (Some ATTRD_OP_REFRESH)"
    and "\<not> safe_str_eq t (Some ATTRD_OP_PEER_REMOVE)"
    and "\<not> safe_str_eq t (Some ATTRD_OP_CLEAR_FAILURE)"
    and "\<not> (t \<noteq> None \<and> safe_str_neq t (Some ATTRD_OP_UPDATE))"
proof -
  have u: "map tolower_c ATTRD_OP_UPDATE = ''update''"
    by (simp add: ATTRD_OP_UPDATE_def tolower_c_def)
  have r: "map tolower_c ATTRD_OP_REFRESH = ''refresh''"
    by (simp add: ATTRD_OP_REFRESH_def tolower_c_def)
  have p: "map tolower_c ATTRD_OP_PEER_REMOVE = ''peer-remove''"
    by (simp add: ATTRD_OP_PEER_REMOVE_def tolower_c_def)
  have c: "map tolower_c ATTRD_OP_CLEAR_FAILURE = ''clear-failure''"
    by (simp add: ATTRD_OP_CLEAR_FAILURE_def tolower_c_def)
  show "\<not> safe_str_eq t (Some ATTRD_OP_REFRESH)"
    using assms by (cases t) (auto simp: safe_str_eq_def crm_str_eq_def strcasecmp_eq_def u r)
  show "\<not> safe_str_eq t (Some ATTRD_OP_PEER_REMOVE)"
    using assms by (cases t) (auto simp: safe_str_eq_def crm_str_eq_def strcasecmp_eq_def u p)
  show "\<not> safe_str_eq t (Some ATTRD_OP_CLEAR_FAILURE)"
    using assms by (cases t) (auto simp: safe_str_eq_def crm_str_eq_def strcasecmp_eq_def u c)
  show "\<not> (t \<noteq> None \<and> safe_str_neq t (Some ATTRD_OP_UPDATE))"
    using assms by (cases t) (auto simp: safe_str_neq_def)
qed

lemma find_hash_entry_found:
  assumes "crm_element_value msg F_ATTRD_ATTRIBUTE = Some a" "attr_hash a = Some e"
  shows "find_hash_entry env attr_hash msg =
           (attr_hash(a \<mapsto>
              e\<lparr>set_attr := (case crm_element_value msg F_ATTRD_SET of
                                Some v \<Rightarrow> Some v
                              | None \<Rightarrow> set_attr e),
                section_attr := Some (case crm_element_value msg F_ATTRD_SECTION of
                                        Some v \<Rightarrow> v
                                      | None \<Rightarrow> XML_CIB_TAG_STATUS),
                dampen := (case crm_element_value msg F_ATTRD_DAMPEN of
                             Some v \<Rightarrow> Some v
                           | None \<Rightarrow> dampen e),
                timeout_attr := (case crm_element_value msg F_ATTRD_DAMPEN of
                                   Some v \<Rightarrow> crm_get_msec env v
                                 | None \<Rightarrow> timeout_attr e),
                user := (if ENABLE_ACL env then crm_element_value msg F_ATTRD_USER
                         else user e)\<rparr>),
            Some a)"
  using assms
  by (cases "crm_element_value msg F_ATTRD_SET"; cases "crm_element_value msg F_ATTRD_DAMPEN";
      cases "ENABLE_ACL env")
     (simp_all add: find_hash_entry_def Let_def)

lemma attrd_local_callback_by_name:
  assumes "crm_element_value msg F_ATTRD_TASK = None
             \<or> safe_str_eq (crm_element_value msg F_ATTRD_TASK) (Some ATTRD_OP_UPDATE)"
    and "crm_element_value msg F_ATTRD_HOST = None
             \<or> attr_is_remote env msg = 0
               \<and> safe_str_eq (crm_element_value msg F_ATTRD_HOST) (attrd_uname env)"
    and "crm_element_value msg F_ATTRD_ATTRIBUTE = Some a"
    and "find_hash_entry env attr_hash msg = (tbl, Some a)" "tbl a = Some e"
  shows "attrd_local_callback env attr_hash msg =
           Inr (tbl(a \<mapsto> fst (update_local_attr env msg e)), snd (update_local_attr env msg e))"
proof -
  note b = update_task_branch [OF assms(1)]
  have h: "\<not> (crm_element_value msg F_ATTRD_HOST \<noteq> None \<and> attr_is_remote env msg \<noteq> 0)"
          "\<not> (crm_element_value msg F_ATTRD_HOST \<noteq> None
               \<and> safe_str_neq (crm_element_value msg F_ATTRD_HOST) (attrd_uname env))"
    using assms(2) by (auto simp: safe_str_neq_def)
  show ?thesis
    unfolding attrd_local_callback_def Let_def
    using b h assms(3,4,5) by (simp add: case_prod_beta)
qed

text \<open>
  C2, as the claim states it, fails: a request whose value equals both the pending and
  the committed value still changes the entry. \<open>update_local_attr\<close> fills in the
  entry's \<open>uuid\<close> from the request's key when the entry has none, before it compares
  values; and for a request that names the attribute \<open>find_hash_entry\<close> has by then
  copied the request's dampening into the entry.
\<close>

theorem update_local_attr_changes_uuid:
  "crm_element_value [F_ATTRD_VALUE \<mapsto> ''3'', F_ATTRD_KEY \<mapsto> ''node1''] F_ATTRD_VALUE
     = value_attr entry_load
   \<and> value_attr entry_load = stored_value entry_load
   \<and> fst (update_local_attr attrd_plain
          [F_ATTRD_VALUE \<mapsto> ''3'', F_ATTRD_KEY \<mapsto> ''node1''] entry_load)
     \<noteq> entry_load
   \<and> crm_element_value update_load_3 F_ATTRD_VALUE = value_attr entry_load
   \<and> attrd_local_callback attrd_plain [''load'' \<mapsto> entry_load] update_load_3
     = Inr ([''load'' \<mapsto> entry_load\<lparr>dampen := Some ''2s'', timeout_attr := 2000\<rparr>], [])"
proof -
  have t: "safe_str_eq (Some ''3'') (Some ''3'')"
    "safe_str_eq (Some ''update'') (Some ATTRD_OP_UPDATE)"
    by (simp_all add: safe_str_eq_refl ATTRD_OP_UPDATE_def)
  have m: "crm_element_value update_load_3 F_ATTRD_TASK = Some ''update''"
    "crm_element_value update_load_3 F_ATTRD_HOST = None"
    "crm_element_value update_load_3 F_ATTRD_ATTRIBUTE = Some ''load''"
    "crm_element_value update_load_3 F_ATTRD_VALUE = Some ''3''"
    "crm_element_value update_load_3 F_ATTRD_KEY = None"
    "crm_element_value update_load_3 F_ATTRD_SET = None"
    "crm_element_value update_load_3 F_ATTRD_SECTION = None"
    "crm_element_value update_load_3 F_ATTRD_DAMPEN = Some ''2s''"
    "crm_element_value update_load_3 F_ATTRD_USER = None"
    by (simp_all add: crm_element_value_def update_load_3_def F_ATTRD_VALUE_def F_ATTRD_KEY_def
          F_ATTRD_TASK_def F_ATTRD_ATTRIBUTE_def F_ATTRD_DAMPEN_def F_ATTRD_HOST_def
          F_ATTRD_SET_def F_ATTRD_SECTION_def F_ATTRD_USER_def)
  define e' where "e' = entry_load\<lparr>dampen := Some ''2s'', timeout_attr := 2000\<rparr>"
  have f: "find_hash_entry attrd_plain [''load'' \<mapsto> entry_load] update_load_3
             = ([''load'' \<mapsto> e'], Some ''load'')"
    using find_hash_entry_found
            [where msg = update_load_3 and a = "''load''" and e = entry_load
               and attr_hash = "[''load'' \<mapsto> entry_load]" and env = attrd_plain]
    by (simp add: m e'_def entry_load_def attrd_plain_def XML_CIB_TAG_STATUS_def)
  have u: "update_local_attr attrd_plain update_load_3 e' = (e', [])"
    using update_local_attr_ignored [where msg = update_load_3 and e = e' and env = attrd_plain] t
    by (simp add: m e'_def entry_load_def)
  have "attrd_local_callback attrd_plain [''load'' \<mapsto> entry_load] update_load_3
     = Inr ([''load'' \<mapsto> e'], [])"
    using attrd_local_callback_by_name
            [where msg = update_load_3 and a = "''load''" and e = e' and env = attrd_plain
               and attr_hash = "[''load'' \<mapsto> entry_load]" and tbl = "[''load'' \<mapsto> e']"]
      t f
    by (simp add: m u)
  moreover have "fst (update_local_attr attrd_plain
          [F_ATTRD_VALUE \<mapsto> ''3'', F_ATTRD_KEY \<mapsto> ''node1''] entry_load)
     \<noteq> entry_load"
    by (simp add: update_local_attr_def crm_element_value_def F_ATTRD_VALUE_def F_ATTRD_KEY_def
          entry_load_def Let_def safe_str_eq_refl)
  ultimately show ?thesis
    by (simp add: m e'_def)
       (simp add: crm_element_value_def F_ATTRD_VALUE_def F_ATTRD_KEY_def entry_load_def)
qed

text \<open>
  C2, amended. An update whose value equals both \<open>value\<close> (pending) and \<open>stored_value\<close>
  (committed) leaves the entry's values, its timer and all scheduled work as they are:
  \<open>update_local_attr\<close> does nothing, and the only field it can change is \<open>uuid\<close>, set
  from the request's key when the entry has none. The same holds for an update that
  arrives while the dampening timer is armed and whose value, after expansion, is the
  pending value: the timer is not restarted. Equal is what \<open>safe_str_eq\<close> takes for
  equal. When the request names the attribute, \<open>attrd_local_callback\<close> runs
  \<open>find_hash_entry\<close> first, and the entry has then also taken set, section, dampening
  (\<open>dampen\<close> and \<open>timeout\<close>) and user from the request; its id, its two values and its
  timer are as before, and nothing is scheduled or sent.
\<close>

theorem update_local_attr_no_change:
  "(safe_str_eq (crm_element_value msg F_ATTRD_VALUE) (value_attr e)
      \<and> safe_str_eq (crm_element_value msg F_ATTRD_VALUE) (stored_value e)
    \<or> timer_id e \<noteq> 0
      \<and> safe_str_eq
          (case crm_element_value msg F_ATTRD_VALUE of
             None \<Rightarrow> None
           | Some x \<Rightarrow>
               (case expand_attr_value env x (value_attr e) of
                  Some y \<Rightarrow> Some y
                | None \<Rightarrow> Some x))
          (value_attr e)
    \<longrightarrow>
      update_local_attr env msg e =
        (e\<lparr>uuid := (case uuid e of
                       None \<Rightarrow> crm_element_value msg F_ATTRD_KEY
                     | Some u \<Rightarrow> Some u)\<rparr>, [])
      \<and> ((crm_element_value msg F_ATTRD_TASK = None
             \<or> safe_str_eq (crm_element_value msg F_ATTRD_TASK) (Some ATTRD_OP_UPDATE))
          \<and> (crm_element_value msg F_ATTRD_HOST = None
               \<or> attr_is_remote env msg = 0
                 \<and> safe_str_eq (crm_element_value msg F_ATTRD_HOST) (attrd_uname env))
          \<and> crm_element_value msg F_ATTRD_ATTRIBUTE = Some a \<and> attr_hash a = Some e
        \<longrightarrow>
          attrd_local_callback env attr_hash msg =
            Inr (attr_hash(a \<mapsto>
                   e\<lparr>set_attr := (case crm_element_value msg F_ATTRD_SET of
                                     Some v \<Rightarrow> Some v
                                   | None \<Rightarrow> set_attr e),
                     section_attr := Some (case crm_element_value msg F_ATTRD_SECTION of
                                             Some v \<Rightarrow> v
                                           | None \<Rightarrow> XML_CIB_TAG_STATUS),
                     dampen := (case crm_element_value msg F_ATTRD_DAMPEN of
                                  Some v \<Rightarrow> Some v
                                | None \<Rightarrow> dampen e),
                     timeout_attr := (case crm_element_value msg F_ATTRD_DAMPEN of
                                        Some v \<Rightarrow> crm_get_msec env v
                                      | None \<Rightarrow> timeout_attr e),
                     user := (if ENABLE_ACL env then crm_element_value msg F_ATTRD_USER
                              else user e),
                     uuid := (case uuid e of
                                None \<Rightarrow> crm_element_value msg F_ATTRD_KEY
                              | Some u \<Rightarrow> Some u)\<rparr>),
                 [])))"
proof (intro impI conjI)
  assume v: "safe_str_eq (crm_element_value msg F_ATTRD_VALUE) (value_attr e)
      \<and> safe_str_eq (crm_element_value msg F_ATTRD_VALUE) (stored_value e)
    \<or> timer_id e \<noteq> 0
      \<and> safe_str_eq
          (case crm_element_value msg F_ATTRD_VALUE of
             None \<Rightarrow> None
           | Some x \<Rightarrow>
               (case expand_attr_value env x (value_attr e) of
                  Some y \<Rightarrow> Some y
                | None \<Rightarrow> Some x))
          (value_attr e)"
  have same: "update_local_attr env msg e' =
        (e'\<lparr>uuid := (case uuid e' of
                       None \<Rightarrow> crm_element_value msg F_ATTRD_KEY
                     | Some u \<Rightarrow> Some u)\<rparr>, [])"
    if "value_attr e' = value_attr e" "stored_value e' = stored_value e"
       "timer_id e' = timer_id e" for e'
  proof -
    have "safe_str_eq (crm_element_value msg F_ATTRD_VALUE) (value_attr e')
        \<and> safe_str_eq (crm_element_value msg F_ATTRD_VALUE) (stored_value e')
      \<or> timer_id e' \<noteq> 0
        \<and> safe_str_eq
            (case crm_element_value msg F_ATTRD_VALUE of
               None \<Rightarrow> None
             | Some x \<Rightarrow>
                 (case expand_attr_value env x (value_attr e') of
                    Some y \<Rightarrow> Some y
                  | None \<Rightarrow> Some x))
            (value_attr e')"
      unfolding that using v by blast
    then show ?thesis
      using update_local_attr_ignored [where msg = msg and e = e' and env = env]
        update_local_attr_waiting [where msg = msg and e = e' and env = env]
      by blast
  qed
  show "update_local_attr env msg e =
        (e\<lparr>uuid := (case uuid e of
                       None \<Rightarrow> crm_element_value msg F_ATTRD_KEY
                     | Some u \<Rightarrow> Some u)\<rparr>, [])"
    by (rule same) simp_all
  assume p: "(crm_element_value msg F_ATTRD_TASK = None
             \<or> safe_str_eq (crm_element_value msg F_ATTRD_TASK) (Some ATTRD_OP_UPDATE))
          \<and> (crm_element_value msg F_ATTRD_HOST = None
               \<or> attr_is_remote env msg = 0
                 \<and> safe_str_eq (crm_element_value msg F_ATTRD_HOST) (attrd_uname env))
          \<and> crm_element_value msg F_ATTRD_ATTRIBUTE = Some a \<and> attr_hash a = Some e"
  define e' where "e' = e\<lparr>set_attr := (case crm_element_value msg F_ATTRD_SET of
                                     Some v \<Rightarrow> Some v
                                   | None \<Rightarrow> set_attr e),
                     section_attr := Some (case crm_element_value msg F_ATTRD_SECTION of
                                             Some v \<Rightarrow> v
                                           | None \<Rightarrow> XML_CIB_TAG_STATUS),
                     dampen := (case crm_element_value msg F_ATTRD_DAMPEN of
                                  Some v \<Rightarrow> Some v
                                | None \<Rightarrow> dampen e),
                     timeout_attr := (case crm_element_value msg F_ATTRD_DAMPEN of
                                        Some v \<Rightarrow> crm_get_msec env v
                                      | None \<Rightarrow> timeout_attr e),
                     user := (if ENABLE_ACL env then crm_element_value msg F_ATTRD_USER
                              else user e)\<rparr>"
  have f: "find_hash_entry env attr_hash msg = (attr_hash(a \<mapsto> e'), Some a)"
    unfolding e'_def using p by (intro find_hash_entry_found) simp_all
  have u: "update_local_attr env msg e' =
        (e'\<lparr>uuid := (case uuid e' of
                       None \<Rightarrow> crm_element_value msg F_ATTRD_KEY
                     | Some u \<Rightarrow> Some u)\<rparr>, [])"
    by (rule same) (simp_all add: e'_def)
  have "attrd_local_callback env attr_hash msg =
           Inr ((attr_hash(a \<mapsto> e'))(a \<mapsto> fst (update_local_attr env msg e')),
                snd (update_local_attr env msg e'))"
    using p by (intro attrd_local_callback_by_name [OF _ _ _ f]) simp_all
  then show "attrd_local_callback env attr_hash msg =
            Inr (attr_hash(a \<mapsto>
                   e\<lparr>set_attr := (case crm_element_value msg F_ATTRD_SET of
                                     Some v \<Rightarrow> Some v
                                   | None \<Rightarrow> set_attr e),
                     section_attr := Some (case crm_element_value msg F_ATTRD_SECTION of
                                             Some v \<Rightarrow> v
                                           | None \<Rightarrow> XML_CIB_TAG_STATUS),
                     dampen := (case crm_element_value msg F_ATTRD_DAMPEN of
                                  Some v \<Rightarrow> Some v
                                | None \<Rightarrow> dampen e),
                     timeout_attr := (case crm_element_value msg F_ATTRD_DAMPEN of
                                        Some v \<Rightarrow> crm_get_msec env v
                                      | None \<Rightarrow> timeout_attr e),
                     user := (if ENABLE_ACL env then crm_element_value msg F_ATTRD_USER
                              else user e),
                     uuid := (case uuid e of
                                None \<Rightarrow> crm_element_value msg F_ATTRD_KEY
                              | Some u \<Rightarrow> Some u)\<rparr>),
                 [])"
    unfolding u by (simp add: e'_def)
qed

theorem update_local_attr_no_change_witness:
  "update_local_attr attrd_plain [F_ATTRD_VALUE \<mapsto> ''3''] entry_load = (entry_load, [])
   \<and> update_local_attr attrd_plain [F_ATTRD_VALUE \<mapsto> ''4'']
        (entry_load\<lparr>value_attr := Some ''4'', timer_id := 5\<rparr>)
      = (entry_load\<lparr>value_attr := Some ''4'', timer_id := 5\<rparr>, [])
   \<and> attrd_local_callback attrd_plain [''load'' \<mapsto> entry_load] update_load_3
      = Inr ([''load'' \<mapsto> entry_load\<lparr>dampen := Some ''2s'', timeout_attr := 2000\<rparr>], [])"
proof -
  have t: "safe_str_eq (Some ''3'') (Some ''3'')" "safe_str_eq (Some ''4'') (Some ''4'')"
    "safe_str_eq (Some ''update'') (Some ATTRD_OP_UPDATE)"
    by (simp_all add: safe_str_eq_refl ATTRD_OP_UPDATE_def)
  have a: "update_local_attr attrd_plain [F_ATTRD_VALUE \<mapsto> ''3''] entry_load = (entry_load, [])"
    using update_local_attr_no_change
            [where msg = "[F_ATTRD_VALUE \<mapsto> ''3'']" and e = entry_load and env = attrd_plain]
      t
    by (simp add: crm_element_value_def F_ATTRD_VALUE_def F_ATTRD_KEY_def entry_load_def)
  have b: "update_local_attr attrd_plain [F_ATTRD_VALUE \<mapsto> ''4'']
        (entry_load\<lparr>value_attr := Some ''4'', timer_id := 5\<rparr>)
      = (entry_load\<lparr>value_attr := Some ''4'', timer_id := 5\<rparr>, [])"
    using update_local_attr_no_change
            [where msg = "[F_ATTRD_VALUE \<mapsto> ''4'']"
               and e = "entry_load\<lparr>value_attr := Some ''4'', timer_id := 5\<rparr>"
               and env = attrd_plain]
      t
    by (simp add: crm_element_value_def F_ATTRD_VALUE_def F_ATTRD_KEY_def entry_load_def
          expand_attr_value_def attrd_plain_def)
  have c: "attrd_local_callback attrd_plain [''load'' \<mapsto> entry_load] update_load_3
      = Inr ([''load'' \<mapsto> entry_load\<lparr>dampen := Some ''2s'', timeout_attr := 2000\<rparr>], [])"
    using update_local_attr_no_change
            [where msg = update_load_3 and e = entry_load and env = attrd_plain
               and a = "''load''" and attr_hash = "[''load'' \<mapsto> entry_load]"]
      t
    by (simp add: crm_element_value_def update_load_3_def F_ATTRD_VALUE_def F_ATTRD_KEY_def
          F_ATTRD_TASK_def F_ATTRD_ATTRIBUTE_def F_ATTRD_DAMPEN_def F_ATTRD_HOST_def
          F_ATTRD_SET_def F_ATTRD_SECTION_def F_ATTRD_USER_def XML_CIB_TAG_STATUS_def
          entry_load_def attrd_plain_def)
  from a b c show ?thesis by simp
qed

section \<open>Properties of the IPC proxy\<close>



lemma response_ids_append: "response_ids (xs @ ys) = response_ids xs @ response_ids ys"
  by (induction xs rule: response_ids.induct) simp_all






section \<open>Properties of the alert dispatch\<close>

lemma exec_alert_loop_calls:
  "map (\<lambda>(i, agent_file, t, ps). (i, agent_file, t))
       (snd (snd (exec_alert_loop env kind attr_name base_params entries (ok, bad, calls)))) =
   map (\<lambda>(i, agent_file, t, ps). (i, agent_file, t)) calls
   @ map (\<lambda>entry. (id_alert entry, path entry, timeout_alert entry))
       (filter (\<lambda>entry. \<not> is_not_set (flags_alert entry) (alert_flag_bits kind)
                  \<and> (kind = crm_alert_attribute
                       \<longrightarrow> is_target_alert (select_attribute_name entry) attr_name))
          entries)"
proof (induction entries arbitrary: ok bad calls)
  case Nil
  show ?case by simp
next
  case (Cons entry entries)
  let ?stays = "\<not> is_not_set (flags_alert entry) (alert_flag_bits kind)
                  \<and> (kind = crm_alert_attribute
                       \<longrightarrow> is_target_alert (select_attribute_name entry) attr_name)"
  show ?case
  proof (cases ?stays)
    case False
    then have step: "exec_alert_loop env kind attr_name base_params (entry # entries) (ok, bad, calls)
              = exec_alert_loop env kind attr_name base_params entries (ok, bad, calls)"
      by auto
    show ?thesis
      unfolding step using False Cons.IH [of ok bad calls] by simp
  next
    case True
    define call where "call = (id_alert entry, path entry, timeout_alert entry,
        alert_envvar2params
          (case crm_time_format_hr env (tstamp_format entry) of
             Some ts \<Rightarrow> alert_key2param env
                          (alert_key2param env base_params CRM_alert_recipient (recipient entry))
                          CRM_alert_timestamp (Some ts)
           | None \<Rightarrow> alert_key2param env base_params CRM_alert_recipient (recipient entry))
          entry)"
    from True have step: "exec_alert_loop env kind attr_name base_params (entry # entries) (ok, bad, calls)
              = (if exec_alert env call < 0
                 then exec_alert_loop env kind attr_name base_params entries (ok, True, calls @ [call])
                 else exec_alert_loop env kind attr_name base_params entries (True, bad, calls @ [call]))"
      by (auto simp: Let_def call_def)
    show ?thesis
    proof (cases "exec_alert env call < 0")
      case neg: True
      show ?thesis
        unfolding step using neg True Cons.IH [of ok True "calls @ [call]"]
        by (simp add: call_def)
    next
      case nonneg: False
      show ?thesis
        unfolding step using nonneg True Cons.IH [of True bad "calls @ [call]"]
        by (simp add: call_def)
    qed
  qed
qed

lemma is_target_alert_iff:
  "is_target_alert list v \<longleftrightarrow>
     (\<exists>n. v = Some n \<and> (list = None \<or> (\<exists>names. list = Some names \<and> n \<in> set names)))"
  by (cases v; cases list) (simp_all add: is_target_alert_def)

text \<open>
  C8. Over a list of alert entries and for an event kind, the agents that
  \<open>exec_alert_list\<close> starts are, in order, those of the entries whose mask \<open>flags\<close>
  includes the bit of the kind and, when the kind is attribute, whose allow-list
  \<open>select_attribute_name\<close> is empty or contains the attribute name; every other entry
  is skipped. An entry without names has the null pointer for its allow-list: that is
  the empty allow-list here.
\<close>

theorem exec_alert_list_filter:
  "map (\<lambda>(i, agent_file, t, ps). (i, agent_file, t))
       (snd (exec_alert_list env alert_list kind attr_name base_params)) =
   map (\<lambda>entry. (id_alert entry, path entry, timeout_alert entry))
     (filter (\<lambda>entry. flags_alert entry AND alert_flag_bits kind \<noteq> 0
                \<and> (kind = crm_alert_attribute
                     \<longrightarrow> (\<exists>n. attr_name = Some n
                             \<and> (select_attribute_name entry = None
                                  \<or> (\<exists>names. select_attribute_name entry = Some names
                                        \<and> n \<in> set names)))))
        alert_list)"
proof -
  obtain ok bad calls where r:
    "exec_alert_loop env kind attr_name
       (alert_key2param env
          (alert_key2param env base_params CRM_alert_kind (Some (crm_alert_flag2text kind)))
          CRM_alert_version (Some (VERSION env)))
       alert_list (False, False, []) = (ok, bad, calls)"
    by (metis prod_cases3)
  have "snd (exec_alert_list env alert_list kind attr_name base_params) = calls"
    using r by (simp add: exec_alert_list_def Let_def)
  moreover have "calls = snd (snd (exec_alert_loop env kind attr_name
       (alert_key2param env
          (alert_key2param env base_params CRM_alert_kind (Some (crm_alert_flag2text kind)))
          CRM_alert_version (Some (VERSION env)))
       alert_list (False, False, [])))"
    using r by simp
  ultimately show ?thesis
    using exec_alert_loop_calls [of env kind attr_name _ alert_list False False "[]"]
    by (simp add: is_target_alert_iff is_not_set_def)
qed

theorem exec_alert_list_filter_witness:
  "map (\<lambda>(i, agent_file, t, ps). (i, agent_file, t))
       (snd (exec_alert_list alert_env_ok [alert_a1, alert_a2, alert_a3] crm_alert_attribute
               (Some ''bar'') []))
     = [(''a2'', ''/usr/share/alerts/a2.sh'', 30000)]"
  using exec_alert_list_filter
          [of alert_env_ok "[alert_a1, alert_a2, alert_a3]" crm_alert_attribute "Some ''bar''" "[]"]
  by (simp add: alert_a1_def alert_a2_def alert_a3_def)

section \<open>Properties of the action executor\<close>

subsection \<open>Resolving the service alias\<close>

lemma find_service_class_spec:
  "resources_find_service_class pf ag = spec_find_service_class pf ag"
  by (cases "stat_ok pf (LSB_ROOT_DIR pf @ ''/'' @ ag)"; cases "SUPPORT_SYSTEMD pf";
      cases "systemd_unit_exists pf ag"; cases "SUPPORT_UPSTART pf";
      cases "upstart_job_exists pf ag")
     (simp_all add: resources_find_service_class_def spec_find_service_class_def
        probes_compiled_def)

lemma expand_service_cases:
  assumes "strcasecmp_eq st PCMK_RESOURCE_CLASS_SERVICE"
  shows "expand_resource_class pf n st ag =
           (if stat_ok pf (LSB_ROOT_DIR pf @ ''/'' @ ag) then PCMK_RESOURCE_CLASS_LSB
            else if SUPPORT_SYSTEMD pf \<and> systemd_unit_exists pf ag then PCMK_RESOURCE_CLASS_SYSTEMD
            else if SUPPORT_UPSTART pf \<and> upstart_job_exists pf ag then PCMK_RESOURCE_CLASS_UPSTART
            else PCMK_RESOURCE_CLASS_LSB)"
  using assms by (simp add: expand_resource_class_def resources_find_service_class_def)

lemma strcasecmp_eq_length: "strcasecmp_eq a b \<Longrightarrow> length a = length b"
  unfolding strcasecmp_eq_def by (metis length_map)

lemma service_needs_no_provider:
  assumes "strcasecmp_eq st PCMK_RESOURCE_CLASS_SERVICE"
  shows "\<not> crm_provider_required (Some st)"
proof
  assume "crm_provider_required (Some st)"
  then have "length st = 3"
    using strcasecmp_eq_length [of st PCMK_RESOURCE_CLASS_OCF]
    by (simp add: crm_provider_required_def PCMK_RESOURCE_CLASS_OCF_def)
  moreover have "length st = 7"
    using strcasecmp_eq_length [OF assms] by (simp add: PCMK_RESOURCE_CLASS_SERVICE_def)
  ultimately show False by simp
qed

lemma class_facts:
  "\<not> crm_provider_required (Some PCMK_RESOURCE_CLASS_LSB)"
  "\<not> crm_provider_required (Some PCMK_RESOURCE_CLASS_SYSTEMD)"
  "\<not> crm_provider_required (Some PCMK_RESOURCE_CLASS_UPSTART)"
  "strcasecmp_eq PCMK_RESOURCE_CLASS_LSB PCMK_RESOURCE_CLASS_LSB"
  "\<not> strcasecmp_eq PCMK_RESOURCE_CLASS_SYSTEMD PCMK_RESOURCE_CLASS_LSB"
  "\<not> strcasecmp_eq PCMK_RESOURCE_CLASS_SYSTEMD PCMK_RESOURCE_CLASS_HB"
  "strcasecmp_eq PCMK_RESOURCE_CLASS_SYSTEMD PCMK_RESOURCE_CLASS_SYSTEMD"
  "\<not> strcasecmp_eq PCMK_RESOURCE_CLASS_UPSTART PCMK_RESOURCE_CLASS_LSB"
  "\<not> strcasecmp_eq PCMK_RESOURCE_CLASS_UPSTART PCMK_RESOURCE_CLASS_HB"
  "\<not> strcasecmp_eq PCMK_RESOURCE_CLASS_UPSTART PCMK_RESOURCE_CLASS_SYSTEMD"
  "strcasecmp_eq PCMK_RESOURCE_CLASS_UPSTART PCMK_RESOURCE_CLASS_UPSTART"
  by (simp_all add: crm_provider_required_def strcasecmp_eq_def tolower_c_def
        PCMK_RESOURCE_CLASS_LSB_def PCMK_RESOURCE_CLASS_SYSTEMD_def
        PCMK_RESOURCE_CLASS_UPSTART_def PCMK_RESOURCE_CLASS_HB_def PCMK_RESOURCE_CLASS_OCF_def)

lemma create_with_known_class:
  assumes valid: "n \<noteq> []" "ag \<noteq> []" "ac \<noteq> []" "st \<noteq> []"
    and st: "\<not> crm_provider_required (Some st)"
    and cls: "expand_resource_class pf n st ag = cls"
    and known: "cls = PCMK_RESOURCE_CLASS_LSB
                \<or> cls = PCMK_RESOURCE_CLASS_SYSTEMD \<and> SUPPORT_SYSTEMD pf
                \<or> cls = PCMK_RESOURCE_CLASS_UPSTART \<and> SUPPORT_UPSTART pf"
  shows "fst (resources_action_create pf s p (Some n) (Some st) prov (Some ag) (Some ac)
                iv tmo ps fl) = Some p
       \<and> map_option standard
           (heap (snd (resources_action_create pf s p (Some n) (Some st) prov (Some ag) (Some ac)
                         iv tmo ps fl)) p) = Some (Some cls)"
  using known
proof (elim disjE conjE)
  assume "cls = PCMK_RESOURCE_CLASS_LSB"
  with valid st cls show ?thesis
    by (simp add: resources_action_create_def crm_strlen_zero_def Let_def class_facts)
next
  assume "cls = PCMK_RESOURCE_CLASS_SYSTEMD" "SUPPORT_SYSTEMD pf"
  with valid st cls show ?thesis
    by (simp add: resources_action_create_def crm_strlen_zero_def Let_def class_facts)
next
  assume "cls = PCMK_RESOURCE_CLASS_UPSTART" "SUPPORT_UPSTART pf"
  with valid st cls show ?thesis
    by (simp add: resources_action_create_def crm_strlen_zero_def Let_def class_facts)
qed

text \<open>
  C6. For an action created with the class \<open>service\<close> (in any letter case),
  \<open>resources_find_service_class\<close> probes the classes in the order lsb (the file test),
  systemd, upstart, as far as the build supports them, stops at the first class that
  provides the agent and answers it; the action's class is that class, and lsb when no
  class provides the agent. With a resource name, an agent and an operation that are
  not empty the action is created, with the resolved class as its \<open>standard\<close>.
\<close>

theorem service_alias_resolution:
  assumes "strcasecmp_eq st PCMK_RESOURCE_CLASS_SERVICE"
  shows "resources_find_service_class pf ag = spec_find_service_class pf ag
     \<and> expand_resource_class pf n st ag =
         (case fst (spec_find_service_class pf ag) of
            Some found_class \<Rightarrow> found_class
          | None \<Rightarrow> PCMK_RESOURCE_CLASS_LSB)
     \<and> expand_resource_class pf n st ag =
         (if stat_ok pf (LSB_ROOT_DIR pf @ ''/'' @ ag) then PCMK_RESOURCE_CLASS_LSB
          else if SUPPORT_SYSTEMD pf \<and> systemd_unit_exists pf ag then PCMK_RESOURCE_CLASS_SYSTEMD
          else if SUPPORT_UPSTART pf \<and> upstart_job_exists pf ag then PCMK_RESOURCE_CLASS_UPSTART
          else PCMK_RESOURCE_CLASS_LSB)
     \<and> (n \<noteq> [] \<and> ag \<noteq> [] \<and> ac \<noteq> [] \<longrightarrow>
          fst (resources_action_create pf s p (Some n) (Some st) prov (Some ag) (Some ac)
                 iv tmo ps fl) = Some p
          \<and> map_option standard
              (heap (snd (resources_action_create pf s p (Some n) (Some st) prov (Some ag)
                            (Some ac) iv tmo ps fl)) p)
              = Some (Some (expand_resource_class pf n st ag)))"
proof (intro conjI impI)
  show "resources_find_service_class pf ag = spec_find_service_class pf ag"
    by (rule find_service_class_spec)
  show "expand_resource_class pf n st ag =
         (case fst (spec_find_service_class pf ag) of
            Some found_class \<Rightarrow> found_class
          | None \<Rightarrow> PCMK_RESOURCE_CLASS_LSB)"
    using assms by (simp add: expand_resource_class_def find_service_class_spec)
  show c: "expand_resource_class pf n st ag =
         (if stat_ok pf (LSB_ROOT_DIR pf @ ''/'' @ ag) then PCMK_RESOURCE_CLASS_LSB
          else if SUPPORT_SYSTEMD pf \<and> systemd_unit_exists pf ag then PCMK_RESOURCE_CLASS_SYSTEMD
          else if SUPPORT_UPSTART pf \<and> upstart_job_exists pf ag then PCMK_RESOURCE_CLASS_UPSTART
          else PCMK_RESOURCE_CLASS_LSB)"
    by (rule expand_service_cases [OF assms])
  have st_len: "st \<noteq> []"
    using strcasecmp_eq_length [OF assms] by (auto simp: PCMK_RESOURCE_CLASS_SERVICE_def)
  have known: "expand_resource_class pf n st ag = PCMK_RESOURCE_CLASS_LSB
       \<or> expand_resource_class pf n st ag = PCMK_RESOURCE_CLASS_SYSTEMD \<and> SUPPORT_SYSTEMD pf
       \<or> expand_resource_class pf n st ag = PCMK_RESOURCE_CLASS_UPSTART \<and> SUPPORT_UPSTART pf"
    unfolding c by simp
  assume v: "n \<noteq> [] \<and> ag \<noteq> [] \<and> ac \<noteq> []"
  have both: "fst (resources_action_create pf s p (Some n) (Some st) prov (Some ag) (Some ac)
                 iv tmo ps fl) = Some p
          \<and> map_option standard
              (heap (snd (resources_action_create pf s p (Some n) (Some st) prov (Some ag)
                            (Some ac) iv tmo ps fl)) p)
              = Some (Some (expand_resource_class pf n st ag))"
    using create_with_known_class [of n ag ac st pf "expand_resource_class pf n st ag" s p prov
            iv tmo ps fl] v st_len service_needs_no_provider [OF assms] known
    by blast
  from both show "fst (resources_action_create pf s p (Some n) (Some st) prov (Some ag) (Some ac)
                 iv tmo ps fl) = Some p" by blast
  from both show "map_option standard
              (heap (snd (resources_action_create pf s p (Some n) (Some st) prov (Some ag)
                            (Some ac) iv tmo ps fl)) p)
              = Some (Some (expand_resource_class pf n st ag))" by blast
qed

theorem service_alias_resolution_witness:
  "strcasecmp_eq ''Service'' PCMK_RESOURCE_CLASS_SERVICE
   \<and> resources_find_service_class host_plain ''foo'' = spec_find_service_class host_plain ''foo''
   \<and> expand_resource_class host_plain ''r1'' ''Service'' ''foo'' = ''systemd''
   \<and> expand_resource_class host_plain ''r1'' ''Service'' ''httpd'' = ''lsb''
   \<and> expand_resource_class host_plain ''r1'' ''Service'' ''bar'' = ''upstart''
   \<and> expand_resource_class host_plain ''r1'' ''Service'' ''nothing'' = ''lsb''
   \<and> fst (resources_action_create host_plain services_empty 1 (Some ''r1'') (Some ''Service'')
             None (Some ''foo'') (Some ''start'') 0 20000 None 0) = Some 1
   \<and> map_option standard
        (heap (snd (resources_action_create host_plain services_empty 1 (Some ''r1'')
                      (Some ''Service'') None (Some ''foo'') (Some ''start'') 0 20000 None 0)) 1)
       = Some (Some ''systemd'')"
proof -
  have h: "strcasecmp_eq ''Service'' PCMK_RESOURCE_CLASS_SERVICE"
    by (simp add: strcasecmp_eq_def tolower_c_def PCMK_RESOURCE_CLASS_SERVICE_def)
  note r = service_alias_resolution [OF h, of host_plain]
  have "resources_find_service_class host_plain ''foo'' = spec_find_service_class host_plain ''foo''"
    using r [of "''foo''", THEN conjunct1] .
  moreover have "expand_resource_class host_plain ''r1'' ''Service'' ''foo'' = ''systemd''"
    using r [of "''foo''" "''r1''", THEN conjunct2, THEN conjunct2, THEN conjunct1]
    by (simp add: host_plain_def PCMK_RESOURCE_CLASS_SYSTEMD_def)
  moreover have "expand_resource_class host_plain ''r1'' ''Service'' ''httpd'' = ''lsb''"
    using r [of "''httpd''" "''r1''", THEN conjunct2, THEN conjunct2, THEN conjunct1]
    by (simp add: host_plain_def PCMK_RESOURCE_CLASS_LSB_def)
  moreover have "expand_resource_class host_plain ''r1'' ''Service'' ''bar'' = ''upstart''"
    using r [of "''bar''" "''r1''", THEN conjunct2, THEN conjunct2, THEN conjunct1]
    by (simp add: host_plain_def PCMK_RESOURCE_CLASS_UPSTART_def)
  moreover have "expand_resource_class host_plain ''r1'' ''Service'' ''nothing'' = ''lsb''"
    using r [of "''nothing''" "''r1''", THEN conjunct2, THEN conjunct2, THEN conjunct1]
    by (simp add: host_plain_def PCMK_RESOURCE_CLASS_LSB_def)
  moreover have "fst (resources_action_create host_plain services_empty 1 (Some ''r1'')
             (Some ''Service'') None (Some ''foo'') (Some ''start'') 0 20000 None 0) = Some 1
     \<and> map_option standard
        (heap (snd (resources_action_create host_plain services_empty 1 (Some ''r1'')
                      (Some ''Service'') None (Some ''foo'') (Some ''start'') 0 20000 None 0)) 1)
       = Some (Some (expand_resource_class host_plain ''r1'' ''Service'' ''foo''))"
    using r [where ag = "''foo''" and n = "''r1''" and ac = "''start''" and s = services_empty
               and p = 1 and prov = None and iv = 0 and tmo = 20000 and ps = None and fl = 0,
             THEN conjunct2, THEN conjunct2, THEN conjunct2]
    by simp
  ultimately show ?thesis using h by simp
qed

subsection \<open>Freeing an action\<close>

lemma services_action_free_refused:
  assumes "p \<in> set (inflight_ops s) \<or> p \<in> set (blocked_ops s)
           \<or> (\<exists>op. heap s p = Some op \<and> recurring_actions s (id_op op) \<noteq> None)"
  shows "services_action_free pf s (Some p) = s"
  using assms by (auto simp: services_action_free_def)

lemma services_action_cleanup_heap:
  "heap (services_action_cleanup pf s p) q = None \<longleftrightarrow> heap s q = None"
  by (cases "heap s p") (simp_all add: services_action_cleanup_def Let_def emit_def)

lemma services_action_free_done:
  assumes "p \<notin> set (inflight_ops s)" "p \<notin> set (blocked_ops s)" "heap s p = Some op"
    and "recurring_actions s (id_op op) = None"
  shows "heap (services_action_free pf s (Some p)) p = None"
  using assms by (simp add: services_action_free_def Let_def emit_def)

text \<open>
  C10. \<open>services_action_free\<close> on an action that is on the in-flight list, on the
  blocked list or in the recurring table (the table holds an entry under the action's
  id) returns with the state as it was: the action is neither freed nor changed. So an
  action that was allocated and is freed by the call was on neither list, and the
  table had no entry under its id; an action that is on neither list and has no entry
  is freed.
\<close>

theorem services_action_free_guarded:
  "(p \<in> set (inflight_ops s) \<or> p \<in> set (blocked_ops s)
      \<or> (\<exists>op. heap s p = Some op \<and> recurring_actions s (id_op op) \<noteq> None)
     \<longrightarrow> services_action_free pf s (Some p) = s)
   \<and> (heap s p = Some op \<and> heap (services_action_free pf s (Some p)) p = None
     \<longrightarrow> p \<notin> set (inflight_ops s) \<and> p \<notin> set (blocked_ops s)
         \<and> recurring_actions s (id_op op) = None)
   \<and> (heap s p = Some op \<and> p \<notin> set (inflight_ops s) \<and> p \<notin> set (blocked_ops s)
       \<and> recurring_actions s (id_op op) = None
     \<longrightarrow> heap (services_action_free pf s (Some p)) p = None)"
proof (intro conjI impI)
  assume "p \<in> set (inflight_ops s) \<or> p \<in> set (blocked_ops s)
      \<or> (\<exists>op. heap s p = Some op \<and> recurring_actions s (id_op op) \<noteq> None)"
  then show "services_action_free pf s (Some p) = s"
    by (rule services_action_free_refused)
next
  assume a: "heap s p = Some op \<and> heap (services_action_free pf s (Some p)) p = None"
  have kept: "p \<in> set (inflight_ops s) \<or> p \<in> set (blocked_ops s)
           \<or> recurring_actions s (id_op op) \<noteq> None \<Longrightarrow> False"
  proof -
    assume "p \<in> set (inflight_ops s) \<or> p \<in> set (blocked_ops s)
           \<or> recurring_actions s (id_op op) \<noteq> None"
    with a have "services_action_free pf s (Some p) = s"
      using services_action_free_refused [of p s pf] by blast
    with a show False by auto
  qed
  from kept show "p \<notin> set (inflight_ops s)" by blast
  from kept show "p \<notin> set (blocked_ops s)" by blast
  from kept show "recurring_actions s (id_op op) = None" by blast
next
  assume "heap s p = Some op \<and> p \<notin> set (inflight_ops s) \<and> p \<notin> set (blocked_ops s)
       \<and> recurring_actions s (id_op op) = None"
  then show "heap (services_action_free pf s (Some p)) p = None"
    using services_action_free_done [of p s op pf] by blast
qed

theorem services_action_free_guarded_witness:
  "services_action_free host_plain services_start_inflight (Some 3) = services_start_inflight
   \<and> services_action_free host_plain services_start_inflight (Some 1) = services_start_inflight
   \<and> heap (services_action_free host_plain
             (services_start_inflight\<lparr>inflight_ops := []\<rparr>) (Some 3)) 3 = None"
proof -
  have h3: "heap services_start_inflight 3 = Some start_r"
    by (simp add: services_start_inflight_def)
  have h1: "heap services_start_inflight 1
              = Some (monitor_r\<lparr>opaque := private_idle\<lparr>repeat_timer := 3\<rparr>\<rparr>)"
    by (simp add: services_start_inflight_def services_monitor_idle_def)
  have "services_action_free host_plain services_start_inflight (Some 3) = services_start_inflight"
    using services_action_free_guarded
            [where p = 3 and s = services_start_inflight and pf = host_plain, THEN conjunct1]
    by (simp add: services_start_inflight_def)
  moreover have "services_action_free host_plain services_start_inflight (Some 1)
                   = services_start_inflight"
    using services_action_free_guarded
            [where p = 1 and s = services_start_inflight and pf = host_plain, THEN conjunct1] h1
    by (simp add: services_start_inflight_def services_monitor_idle_def monitor_r_def)
  moreover have "heap (services_action_free host_plain
             (services_start_inflight\<lparr>inflight_ops := []\<rparr>) (Some 3)) 3 = None"
    using services_action_free_guarded
            [where p = 3 and s = "services_start_inflight\<lparr>inflight_ops := []\<rparr>"
               and op = start_r and pf = host_plain, THEN conjunct2, THEN conjunct2] h3
    by (simp add: services_start_inflight_def services_monitor_idle_def services_empty_def
          start_r_def monitor_r_def)
  ultimately show ?thesis by blast
qed

subsection \<open>Cancelling a recurring action\<close>












subsection \<open>A duplicate of a recurring action\<close>

lemma handle_duplicate_recurring_idle:
  assumes "heap s p = Some op" "recurring_actions s (id_op op) = Some d" "d \<noteq> p"
    and "heap s d = Some dup" "pid dup = 0"
  shows "handle_duplicate_recurring pf s p =
           (True,
            if callback (opaque op) \<noteq> None
            then s\<lparr>heap := (heap s)(d \<mapsto> dup\<lparr>opaque := (opaque dup)\<lparr>callback := callback (opaque op)\<rparr>,
                                             cb_data := cb_data op\<rparr>,
                                   p \<mapsto> op\<lparr>cb_data := None\<rparr>)\<rparr>
            else s)"
proof (cases "callback (opaque op)")
  case None
  with assms show ?thesis
    by (simp add: handle_duplicate_recurring_def Let_def services_action_free_def)
next
  case (Some c)
  with assms show ?thesis
    by (simp add: handle_duplicate_recurring_def Let_def services_action_free_def modify_op_def)
qed

lemma async_duplicate_idle:
  assumes "heap s p = Some op" "0 < interval op" "recurring_actions s (id_op op) = Some d"
    and "d \<noteq> p" "heap s d = Some dup" "pid dup = 0"
    and op1: "op1 = op\<lparr>synchronous := False,
                       opaque := (if cb \<noteq> None then (opaque op)\<lparr>callback := cb\<rparr>
                                  else opaque op)\<rparr>"
    and s1: "s1 = s\<lparr>heap := (heap s)(p \<mapsto> op1)\<rparr>"
  shows "services_action_async pf s p cb =
           (True,
            if callback (opaque op1) \<noteq> None
            then s1\<lparr>heap := (heap s1)(d \<mapsto> dup\<lparr>opaque := (opaque dup)\<lparr>callback := callback (opaque op1)\<rparr>,
                                             cb_data := cb_data op1\<rparr>,
                                   p \<mapsto> op1\<lparr>cb_data := None\<rparr>)\<rparr>
            else s1)"
proof -
  have h1: "heap s1 p = Some op1" "recurring_actions s1 (id_op op1) = Some d"
           "heap s1 d = Some dup"
    using assms by (simp_all add: s1 op1)
  have cb1: "callback (opaque op1) = (if cb \<noteq> None then cb else callback (opaque op))"
    by (simp add: op1)
  have dup: "handle_duplicate_recurring pf s1 p =
           (True,
            if callback (opaque op1) \<noteq> None
            then s1\<lparr>heap := (heap s1)(d \<mapsto> dup\<lparr>opaque := (opaque dup)\<lparr>callback := callback (opaque op1)\<rparr>,
                                             cb_data := cb_data op1\<rparr>,
                                   p \<mapsto> op1\<lparr>cb_data := None\<rparr>)\<rparr>
            else s1)"
    using handle_duplicate_recurring_idle [OF h1(1) h1(2) assms(4) h1(3) assms(6)] .
  have m: "modify_op s p
               (\<lambda>a. a\<lparr>synchronous := False,
                      opaque := (if cb \<noteq> None then (opaque a)\<lparr>callback := cb\<rparr>
                                 else opaque a)\<rparr>) = s1"
    using assms(1) by (simp add: modify_op_def s1 op1)
  have "services_action_async pf s p cb =
          (let (dup, s2) = handle_duplicate_recurring pf s1 p
           in if dup then (True, s2)
              else
               let s3 = s2\<lparr>recurring_actions := (recurring_actions s2)(id_op op \<mapsto> p)\<rparr>
               in if rsc op \<noteq> None \<and> is_op_blocked s3 (rsc op)
                  then (True, s3\<lparr>blocked_ops := blocked_ops s3 @ [p]\<rparr>)
                  else action_exec_helper pf s3 p)"
    unfolding services_action_async_def using assms(1,2)
    by (simp only: option.case m Let_def if_True)
  then show ?thesis
    by (simp only: dup Let_def case_prod_conv if_True)
qed


text \<open>
  C3: what the code does with a duplicate. A recurring submission (\<open>interval > 0\<close>)
  whose id already has another action \<open>d\<close> in the recurring table, idle at this
  moment, returns TRUE; the table is as before, so \<open>d\<close> stays the one entry of the
  identity, and \<open>d\<close> takes over callback and user data of the new action when that
  has a callback. But the new descriptor is not freed: it stays allocated, because
  \<open>services_action_free\<close> finds the entry of \<open>d\<close> under the descriptor's id and returns
  at its third check.
\<close>

theorem duplicate_recurring_not_freed:
  assumes "heap s p = Some op" "0 < interval op" "recurring_actions s (id_op op) = Some d"
    and "d \<noteq> p" "heap s d = Some dup" "pid dup = 0"
  shows "fst (services_action_async pf s p cb) = True
       \<and> recurring_actions (snd (services_action_async pf s p cb)) = recurring_actions s
       \<and> heap (snd (services_action_async pf s p cb)) p \<noteq> None
       \<and> (\<forall>c. (if cb \<noteq> None then cb else callback (opaque op)) = Some c \<longrightarrow>
            map_option (\<lambda>a. (callback (opaque a), cb_data a))
              (heap (snd (services_action_async pf s p cb)) d) = Some (Some c, cb_data op))"
proof -
  define op1 where "op1 = op\<lparr>synchronous := False,
                            opaque := (if cb \<noteq> None then (opaque op)\<lparr>callback := cb\<rparr>
                                       else opaque op)\<rparr>"
  define s1 where "s1 = s\<lparr>heap := (heap s)(p \<mapsto> op1)\<rparr>"
  note run = async_duplicate_idle [OF assms op1_def s1_def, of pf]
  show ?thesis
    unfolding run using assms(4) by (auto simp: s1_def op1_def)
qed

theorem duplicate_recurring_not_freed_witness:
  "fst (services_action_async host_plain services_monitor_idle 2 (Some 2)) = True
   \<and> recurring_actions (snd (services_action_async host_plain services_monitor_idle 2 (Some 2)))
       = [''r_monitor_5000'' \<mapsto> 1]
   \<and> heap (snd (services_action_async host_plain services_monitor_idle 2 (Some 2))) 2 \<noteq> None
   \<and> map_option (\<lambda>a. (callback (opaque a), cb_data a))
        (heap (snd (services_action_async host_plain services_monitor_idle 2 (Some 2))) 1)
       = Some (Some 2, Some 30)"
  using duplicate_recurring_not_freed
          [where s = services_monitor_idle and p = 2 and d = 1 and pf = host_plain
             and cb = "Some 2"
             and op = "monitor_r\<lparr>sequence := 3, cb_data := Some 30,
                                opaque := private_idle\<lparr>callback := None\<rparr>\<rparr>"
             and dup = "monitor_r\<lparr>opaque := private_idle\<lparr>repeat_timer := 3\<rparr>\<rparr>"]
  by (simp add: services_monitor_idle_def services_empty_def monitor_r_def)

subsection \<open>Creating an action: validation\<close>

lemma create_invalid:
  assumes "crm_strlen_zero name \<or> crm_strlen_zero st
           \<or> (crm_provider_required st \<and> crm_strlen_zero prov)
           \<or> crm_strlen_zero ag \<or> crm_strlen_zero ac"
  shows "resources_action_create pf s p name st prov ag ac iv tmo ps fl = (None, s)"
  using assms by (auto simp: resources_action_create_def)

lemma create_unknown_class:
  assumes valid: "n \<noteq> []" "c \<noteq> []" "ag \<noteq> []" "ac \<noteq> []"
    and prov: "\<not> (crm_provider_required (Some c) \<and> crm_strlen_zero prov)"
    and unknown: "\<not> known_class pf (expand_resource_class pf n c ag)"
  shows "resources_action_create pf s p (Some n) (Some c) prov (Some ag) (Some ac)
                iv tmo ps fl =
              (None,
               services_action_free pf
                 (s\<lparr>operations := operations s + 1,
                    heap := (heap s)(p \<mapsto>
                      \<lparr>id_op = generate_op_key n ac iv, rsc = Some n,
                        action = Some ac, interval = iv,
                        standard = Some (expand_resource_class pf n c ag),
                        provider = None, agent = Some ag, timeout = tmo, params = None,
                        pid = 0, cancel = False, status = PCMK_LRM_OP_DONE,
                        sequence = operations s + 1,
                        synchronous = False, flags_op = fl, cb_data = None,
                        opaque = \<lparr>exec = None, args = [], callback = None, repeat_timer = 0,
                            timerid = 0, pending = False, stderr_gsource = False,
                            stdout_gsource = False\<rparr>\<rparr>)\<rparr>) (Some p))"
proof -
  from unknown have u:
    "\<not> crm_provider_required (Some (expand_resource_class pf n c ag))"
    "\<not> strcasecmp_eq (expand_resource_class pf n c ag) PCMK_RESOURCE_CLASS_LSB"
    "\<not> (SUPPORT_HEARTBEAT pf \<and> strcasecmp_eq (expand_resource_class pf n c ag) PCMK_RESOURCE_CLASS_HB)"
    "\<not> (SUPPORT_SYSTEMD pf \<and> strcasecmp_eq (expand_resource_class pf n c ag) PCMK_RESOURCE_CLASS_SYSTEMD)"
    "\<not> (SUPPORT_UPSTART pf \<and> strcasecmp_eq (expand_resource_class pf n c ag) PCMK_RESOURCE_CLASS_UPSTART)"
    "\<not> (SUPPORT_NAGIOS pf \<and> strcasecmp_eq (expand_resource_class pf n c ag) PCMK_RESOURCE_CLASS_NAGIOS)"
    by (simp_all add: known_class_def)
  have same:
    "safe_str_eq (Some (expand_resource_class pf n c ag)) (Some PCMK_RESOURCE_CLASS_LSB) = False"
    "SUPPORT_HEARTBEAT pf \<Longrightarrow>
       safe_str_eq (Some (expand_resource_class pf n c ag)) (Some PCMK_RESOURCE_CLASS_HB) = False"
    using u by (simp_all add: safe_str_eq_def crm_str_eq_def)
  have z: "\<not> crm_strlen_zero (Some n)" "\<not> crm_strlen_zero (Some c)"
          "\<not> crm_strlen_zero (Some ag)" "\<not> crm_strlen_zero (Some ac)"
    using valid by (simp_all add: crm_strlen_zero_def)
  show ?thesis
  proof (cases "crm_provider_required (Some c)")
    case True
    with prov have "\<not> crm_strlen_zero prov" by simp
    with True z u same show ?thesis
      by (cases "SUPPORT_HEARTBEAT pf") (simp_all add: resources_action_create_def Let_def)
  next
    case False
    with z u same show ?thesis
      by (cases "SUPPORT_HEARTBEAT pf") (simp_all add: resources_action_create_def Let_def)
  qed
qed

lemma free_fresh:
  assumes "heap s p = None" "recurring_actions s (id_op op0) = None"
    and "p \<notin> set (inflight_ops s)" "p \<notin> set (blocked_ops s)"
    and "opaque op0 = \<lparr>exec = None, args = [], callback = None, repeat_timer = 0,
                            timerid = 0, pending = False, stderr_gsource = False,
                            stdout_gsource = False\<rparr>"
  shows "services_action_free pf (s\<lparr>operations := k, heap := (heap s)(p \<mapsto> op0)\<rparr>) (Some p)
           = s\<lparr>operations := k\<rparr>"
proof -
  have idem: "(heap s)(p := None) = heap s"
    using assms(1) by (rule fun_upd_idem)
  show ?thesis
    using assms
    by (simp add: services_action_free_def services_action_cleanup_def Let_def emit_def idem)
qed

lemma free_frame:
  "inflight_ops (services_action_free pf s x) = inflight_ops s
   \<and> blocked_ops (services_action_free pf s x) = blocked_ops s
   \<and> recurring_actions (services_action_free pf s x) = recurring_actions s
   \<and> operations (services_action_free pf s x) = operations s"
  by (cases x; cases "heap s (the x)")
     (simp_all add: services_action_free_def services_action_cleanup_def Let_def emit_def)

text \<open>
  C9, as the claim states it, fails for an unknown class: the class is looked at only
  after the action has been built, and building it has advanced the counter
  \<open>operations\<close>, from which the sequence numbers of actions are taken.
\<close>

theorem create_unknown_class_counts:
  "fst (resources_action_create host_plain services_empty 1 (Some ''r'') (Some ''bogus'') None
          (Some ''agent'') (Some ''start'') 0 20000 None 0) = None
   \<and> operations (snd (resources_action_create host_plain services_empty 1 (Some ''r'')
          (Some ''bogus'') None (Some ''agent'') (Some ''start'') 0 20000 None 0)) = 1
   \<and> operations services_empty = 0"
  by (simp add: resources_action_create_def crm_strlen_zero_def crm_provider_required_def
        expand_resource_class_def strcasecmp_eq_def tolower_c_def Let_def
        PCMK_RESOURCE_CLASS_OCF_def PCMK_RESOURCE_CLASS_SERVICE_def PCMK_RESOURCE_CLASS_LSB_def
        PCMK_RESOURCE_CLASS_SYSTEMD_def PCMK_RESOURCE_CLASS_UPSTART_def
        PCMK_RESOURCE_CLASS_HB_def PCMK_RESOURCE_CLASS_NAGIOS_def
        host_plain_def services_empty_def free_frame)

text \<open>
  C9, amended. A request with an empty (or null) resource name, class, agent or
  operation name, or with a class that requires a provider and an empty provider,
  returns NULL and leaves the whole state of the executor as it was. A request with an
  unknown class returns NULL as well and leaves the in-flight list, the blocked list
  and the recurring table as they were, but it has advanced the counter \<open>operations\<close>
  by one; when the address was free and the table has no entry under the key of the
  request, that is the only change. The counter is a C \<open>int\<close> of 32 bits, and the
  addition is the one of the machine: from \<open>INT_MAX\<close> it goes to \<open>INT_MIN\<close>.
\<close>

theorem create_fails_fast:
  "(crm_strlen_zero name \<or> crm_strlen_zero st
      \<or> (crm_provider_required st \<and> crm_strlen_zero prov)
      \<or> crm_strlen_zero ag' \<or> crm_strlen_zero ac'
     \<longrightarrow> resources_action_create pf s p name st prov ag' ac' iv tmo ps fl = (None, s))
   \<and> (n \<noteq> [] \<and> c \<noteq> [] \<and> ag \<noteq> [] \<and> ac \<noteq> []
       \<and> \<not> (crm_provider_required (Some c) \<and> crm_strlen_zero prov)
       \<and> \<not> known_class pf (expand_resource_class pf n c ag)
     \<longrightarrow> fst (resources_action_create pf s p (Some n) (Some c) prov (Some ag) (Some ac)
                iv tmo ps fl) = None
         \<and> inflight_ops (snd (resources_action_create pf s p (Some n) (Some c) prov (Some ag)
                (Some ac) iv tmo ps fl)) = inflight_ops s
         \<and> blocked_ops (snd (resources_action_create pf s p (Some n) (Some c) prov (Some ag)
                (Some ac) iv tmo ps fl)) = blocked_ops s
         \<and> recurring_actions (snd (resources_action_create pf s p (Some n) (Some c) prov
                (Some ag) (Some ac) iv tmo ps fl)) = recurring_actions s
         \<and> operations (snd (resources_action_create pf s p (Some n) (Some c) prov (Some ag)
                (Some ac) iv tmo ps fl)) = operations s + 1
         \<and> (heap s p = None \<and> p \<notin> set (inflight_ops s) \<and> p \<notin> set (blocked_ops s)
             \<and> recurring_actions s (generate_op_key n ac iv) = None
            \<longrightarrow> snd (resources_action_create pf s p (Some n) (Some c) prov (Some ag) (Some ac)
                      iv tmo ps fl) = s\<lparr>operations := operations s + 1\<rparr>))"
proof (intro conjI)
  show "crm_strlen_zero name \<or> crm_strlen_zero st
      \<or> (crm_provider_required st \<and> crm_strlen_zero prov)
      \<or> crm_strlen_zero ag' \<or> crm_strlen_zero ac'
     \<longrightarrow> resources_action_create pf s p name st prov ag' ac' iv tmo ps fl = (None, s)"
    using create_invalid [of name st prov ag' ac' pf s p iv tmo ps fl] by blast
next
  show "n \<noteq> [] \<and> c \<noteq> [] \<and> ag \<noteq> [] \<and> ac \<noteq> []
       \<and> \<not> (crm_provider_required (Some c) \<and> crm_strlen_zero prov)
       \<and> \<not> known_class pf (expand_resource_class pf n c ag)
     \<longrightarrow> fst (resources_action_create pf s p (Some n) (Some c) prov (Some ag) (Some ac)
                iv tmo ps fl) = None
         \<and> inflight_ops (snd (resources_action_create pf s p (Some n) (Some c) prov (Some ag)
                (Some ac) iv tmo ps fl)) = inflight_ops s
         \<and> blocked_ops (snd (resources_action_create pf s p (Some n) (Some c) prov (Some ag)
                (Some ac) iv tmo ps fl)) = blocked_ops s
         \<and> recurring_actions (snd (resources_action_create pf s p (Some n) (Some c) prov
                (Some ag) (Some ac) iv tmo ps fl)) = recurring_actions s
         \<and> operations (snd (resources_action_create pf s p (Some n) (Some c) prov (Some ag)
                (Some ac) iv tmo ps fl)) = operations s + 1
         \<and> (heap s p = None \<and> p \<notin> set (inflight_ops s) \<and> p \<notin> set (blocked_ops s)
             \<and> recurring_actions s (generate_op_key n ac iv) = None
            \<longrightarrow> snd (resources_action_create pf s p (Some n) (Some c) prov (Some ag) (Some ac)
                      iv tmo ps fl) = s\<lparr>operations := operations s + 1\<rparr>)"
  proof
    assume a: "n \<noteq> [] \<and> c \<noteq> [] \<and> ag \<noteq> [] \<and> ac \<noteq> []
       \<and> \<not> (crm_provider_required (Some c) \<and> crm_strlen_zero prov)
       \<and> \<not> known_class pf (expand_resource_class pf n c ag)"
    define op0 where "op0 =
                      \<lparr>id_op = generate_op_key n ac iv, rsc = Some n,
                        action = Some ac, interval = iv,
                        standard = Some (expand_resource_class pf n c ag),
                        provider = None, agent = Some ag, timeout = tmo, params = None,
                        pid = 0, cancel = False, status = PCMK_LRM_OP_DONE,
                        sequence = operations s + 1,
                        synchronous = False, flags_op = fl, cb_data = None,
                        opaque = \<lparr>exec = None, args = [], callback = None, repeat_timer = 0,
                            timerid = 0, pending = False, stderr_gsource = False,
                            stdout_gsource = False\<rparr>\<rparr>"
    have op0: "id_op op0 = generate_op_key n ac iv"
        "opaque op0 = \<lparr>exec = None, args = [], callback = None, repeat_timer = 0,
                            timerid = 0, pending = False, stderr_gsource = False,
                            stdout_gsource = False\<rparr>"
      by (simp_all add: op0_def)
    have r: "resources_action_create pf s p (Some n) (Some c) prov (Some ag) (Some ac)
                iv tmo ps fl =
              (None,
               services_action_free pf
                 (s\<lparr>operations := operations s + 1, heap := (heap s)(p \<mapsto> op0)\<rparr>) (Some p))"
      unfolding op0_def
      using a create_unknown_class [of n c ag ac prov pf s p iv tmo ps fl] by blast
    show "fst (resources_action_create pf s p (Some n) (Some c) prov (Some ag) (Some ac)
                iv tmo ps fl) = None
         \<and> inflight_ops (snd (resources_action_create pf s p (Some n) (Some c) prov (Some ag)
                (Some ac) iv tmo ps fl)) = inflight_ops s
         \<and> blocked_ops (snd (resources_action_create pf s p (Some n) (Some c) prov (Some ag)
                (Some ac) iv tmo ps fl)) = blocked_ops s
         \<and> recurring_actions (snd (resources_action_create pf s p (Some n) (Some c) prov
                (Some ag) (Some ac) iv tmo ps fl)) = recurring_actions s
         \<and> operations (snd (resources_action_create pf s p (Some n) (Some c) prov (Some ag)
                (Some ac) iv tmo ps fl)) = operations s + 1
         \<and> (heap s p = None \<and> p \<notin> set (inflight_ops s) \<and> p \<notin> set (blocked_ops s)
             \<and> recurring_actions s (generate_op_key n ac iv) = None
            \<longrightarrow> snd (resources_action_create pf s p (Some n) (Some c) prov (Some ag) (Some ac)
                      iv tmo ps fl) = s\<lparr>operations := operations s + 1\<rparr>)"
      unfolding r
      using free_fresh [of s p op0 pf "operations s + 1"] op0
      by (simp add: free_frame)
  qed
qed

theorem create_fails_fast_witness:
  "resources_action_create host_plain services_start_inflight 9 (Some '''') (Some ''ocf'')
      (Some ''heartbeat'') (Some ''Dummy'') (Some ''start'') 0 20000 None 0
     = (None, services_start_inflight)
   \<and> resources_action_create host_plain services_start_inflight 9 (Some ''r'') (Some ''ocf'')
      None (Some ''Dummy'') (Some ''start'') 0 20000 None 0
     = (None, services_start_inflight)
   \<and> resources_action_create host_plain services_start_inflight 9 (Some ''r'') (Some ''bogus'')
      None (Some ''Dummy'') (Some ''start'') 0 20000 None 0
     = (None, services_start_inflight\<lparr>operations := 4\<rparr>)
   \<and> sint (operations (snd (resources_action_create host_plain
             (services_start_inflight\<lparr>operations := 0x7FFFFFFF\<rparr>) 9 (Some ''r'')
             (Some ''bogus'') None (Some ''Dummy'') (Some ''start'') 0 20000 None 0)))
     = - 2147483648"
proof -
  have ocf: "crm_provider_required (Some ''ocf'')"
    by (simp add: crm_provider_required_def strcasecmp_eq_def PCMK_RESOURCE_CLASS_OCF_def)
  have bogus: "\<not> crm_provider_required (Some ''bogus'')"
    by (simp add: crm_provider_required_def strcasecmp_eq_def PCMK_RESOURCE_CLASS_OCF_def)
  have cls: "expand_resource_class host_plain ''r'' ''bogus'' ''Dummy'' = ''bogus''"
    by (simp add: expand_resource_class_def strcasecmp_eq_def PCMK_RESOURCE_CLASS_SERVICE_def)
  have unknown: "\<not> known_class host_plain ''bogus''"
    by (simp add: known_class_def crm_provider_required_def strcasecmp_eq_def host_plain_def
          PCMK_RESOURCE_CLASS_OCF_def PCMK_RESOURCE_CLASS_LSB_def
          PCMK_RESOURCE_CLASS_SYSTEMD_def PCMK_RESOURCE_CLASS_UPSTART_def)
  have key: "generate_op_key ''r'' ''start'' 0 = ''r_start_0''"
    by (simp add: generate_op_key_def crm_itoa_def nat_digits.simps digit_char_def)
  have w1: "resources_action_create host_plain services_start_inflight 9 (Some '''') (Some ''ocf'')
      (Some ''heartbeat'') (Some ''Dummy'') (Some ''start'') 0 20000 None 0
     = (None, services_start_inflight)"
    using create_fails_fast
            [where name = "Some ''''" and pf = host_plain and s = services_start_inflight,
             THEN conjunct1]
    by (simp add: crm_strlen_zero_def)
  have w2: "resources_action_create host_plain services_start_inflight 9 (Some ''r'') (Some ''ocf'')
      None (Some ''Dummy'') (Some ''start'') 0 20000 None 0
     = (None, services_start_inflight)"
    using create_fails_fast
            [where name = "Some ''r''" and st = "Some ''ocf''" and prov = None
               and pf = host_plain and s = services_start_inflight, THEN conjunct1] ocf
    by (simp add: crm_strlen_zero_def)
  have w3: "snd (resources_action_create host_plain services_start_inflight 9 (Some ''r'')
      (Some ''bogus'') None (Some ''Dummy'') (Some ''start'') 0 20000 None 0)
     = services_start_inflight\<lparr>operations := 4\<rparr>
     \<and> fst (resources_action_create host_plain services_start_inflight 9 (Some ''r'')
      (Some ''bogus'') None (Some ''Dummy'') (Some ''start'') 0 20000 None 0) = None"
    using create_fails_fast
            [where n = "''r''" and c = "''bogus''" and prov = None and ag = "''Dummy''"
               and ac = "''start''" and iv = 0 and p = 9
               and pf = host_plain and s = services_start_inflight, THEN conjunct2]
          bogus cls unknown
    by (simp add: key services_start_inflight_def services_monitor_idle_def services_empty_def)
  have w4: "operations (snd (resources_action_create host_plain
             (services_start_inflight\<lparr>operations := 0x7FFFFFFF\<rparr>) 9 (Some ''r'')
             (Some ''bogus'') None (Some ''Dummy'') (Some ''start'') 0 20000 None 0))
     = 0x7FFFFFFF + 1"
    using create_fails_fast
            [where n = "''r''" and c = "''bogus''" and prov = None and ag = "''Dummy''"
               and ac = "''start''" and iv = 0 and p = 9
               and pf = host_plain and s = "services_start_inflight\<lparr>operations := 0x7FFFFFFF\<rparr>",
             THEN conjunct2]
          bogus cls unknown
    by simp
  have w5: "sint (0x7FFFFFFF + 1 :: 32 word) = - 2147483648" by simp
  have w123: "resources_action_create host_plain services_start_inflight 9 (Some []) (Some ''ocf'')
      (Some ''heartbeat'') (Some ''Dummy'') (Some ''start'') 0 20000 None 0
     = (None, services_start_inflight)
   \<and> resources_action_create host_plain services_start_inflight 9 (Some ''r'') (Some ''ocf'')
      None (Some ''Dummy'') (Some ''start'') 0 20000 None 0
     = (None, services_start_inflight)
   \<and> resources_action_create host_plain services_start_inflight 9 (Some ''r'') (Some ''bogus'')
      None (Some ''Dummy'') (Some ''start'') 0 20000 None 0
     = (None, services_start_inflight\<lparr>operations := 4\<rparr>)"
    using w1 w2 w3 by (metis prod.collapse)
  with w4 w5 show ?thesis by simp
qed

subsection \<open>One action per resource\<close>






















































text \<open>
  The blocked stop is dispatched when the start completes: the start leaves the
  in-flight list, and draining the blocked list starts the stop, which no action in
  flight blocks any more.
\<close>

lemma blocked_stop_dispatched:
  "inflight_ops (operation_finalize host_plain
      (snd (services_action_async host_plain services_stop_created 4 (Some 4))) 3) = [4]
   \<and> blocked_ops (operation_finalize host_plain
      (snd (services_action_async host_plain services_stop_created 4 (Some 4))) 3) = []
   \<and> trace (operation_finalize host_plain
      (snd (services_action_async host_plain services_stop_created 4 (Some 4))) 3)
       = [Callback_invoked 1 3 PCMK_LRM_OP_DONE, Exec_started 4 (Some ''r'') []]"
  by code_simp

end
